theory Spec2Isabelle
  imports Complex_Main
begin

section \<open>Document stores\<close>

text \<open>
  Both services keep their records in MongoDB collections.  A collection is modelled as
  the list of its documents in insertion order, each paired with its \<open>_id\<close>.  An
  ObjectId is a number; the driver hands out a fresh one at every insert, which the
  store models by a counter.  Timestamps (\<open>datetime\<close>) are integers.
\<close>

type_synonym oid = nat
type_synonym datetime = int
type_synonym 'd collection = "(oid \<times> 'd) list"

datatype error =
    HTTPException nat string
  | ValidationError
  | PyMongoError
  | TypeError

text \<open>\<open>find_one({"_id": i})\<close>: the first document with that id, or \<open>None\<close>.\<close>

definition find_one :: "oid \<Rightarrow> 'd collection \<Rightarrow> 'd option" where
  "find_one i c = map_of c i"

text \<open>\<open>update_one({"_id": i}, {"$set": ...})\<close>: the first matching document is changed.\<close>

fun update_one :: "oid \<Rightarrow> ('d \<Rightarrow> 'd) \<Rightarrow> 'd collection \<Rightarrow> 'd collection" where
  "update_one i f [] = []"
| "update_one i f ((j, d) # c) =
     (if j = i then (j, f d) # c else (j, d) # update_one i f c)"

definition matched_count :: "oid \<Rightarrow> 'd collection \<Rightarrow> nat" where
  "matched_count i c = (case find_one i c of None \<Rightarrow> 0 | Some d \<Rightarrow> 1)"

text \<open>\<open>delete_one({"_id": i})\<close>: the first matching document is removed.\<close>

fun delete_one :: "oid \<Rightarrow> 'd collection \<Rightarrow> 'd collection" where
  "delete_one i [] = []"
| "delete_one i ((j, d) # c) = (if j = i then c else (j, d) # delete_one i c)"

text \<open>
  A field of an update model (\<open>ReminderUpdate\<close>, \<open>TaskUpdate\<close>) is \<open>None\<close> when the
  request leaves it unset, \<open>Some None\<close> when the request sets it to null and
  \<open>Some (Some v)\<close> when it carries the value \<open>v\<close>.  \<open>model_dump(exclude_unset=True)\<close>
  keeps the set fields only, and \<open>$set\<close> writes each of them.
\<close>

definition set_field :: "'a option option \<Rightarrow> 'a option \<Rightarrow> 'a option" where
  "set_field u old = (case u of None \<Rightarrow> old | Some v \<Rightarrow> v)"

text \<open>The decimal rendering of a count inside an f-string.\<close>

definition digit_char :: "nat \<Rightarrow> char" where
  "digit_char d = ''0123456789'' ! d"

function str_nat :: "nat \<Rightarrow> string" where
  "str_nat n = (if n < 10 then [digit_char n] else str_nat (n div 10) @ [digit_char (n mod 10)])"
  by pat_completeness auto
termination
  by (relation "measure id") auto

declare str_nat.simps [simp del]

datatype json =
    JString string
  | JInt int
  | JObject "(string \<times> json) list"

section \<open>Notification service: models\<close>

datatype NotificationStatus = PENDING | SENT | FAILED | CANCELLED

datatype NotificationType = REMINDER | DUE_DATE | OVERDUE | COMPLETION

record ReminderCreate =
  rc_task_id :: string
  rc_title :: string
  rc_message :: string
  rc_reminder_time :: datetime
  rc_task_due_date :: "datetime option"

record ReminderUpdate =
  ru_title :: "string option option"
  ru_message :: "string option option"
  ru_reminder_time :: "datetime option option"
  ru_task_due_date :: "datetime option option"
  ru_status :: "NotificationStatus option option"

text \<open>
  A stored reminder document.  The fields that \<open>ReminderUpdate\<close> can write are
  nullable in the store, whatever the \<open>Reminder\<close> model says.
\<close>

record reminder_dict =
  rd_task_id :: string
  rd_title :: "string option"
  rd_message :: "string option"
  rd_reminder_time :: "datetime option"
  rd_task_due_date :: "datetime option"
  rd_status :: "NotificationStatus option"
  rd_created_at :: datetime
  rd_updated_at :: datetime
  rd_sent_at :: "datetime option"

record Reminder =
  r_id :: "oid option"
  r_task_id :: string
  r_title :: string
  r_message :: string
  r_reminder_time :: datetime
  r_task_due_date :: "datetime option"
  r_status :: NotificationStatus
  r_created_at :: datetime
  r_updated_at :: datetime
  r_sent_at :: "datetime option"

record NotificationCreate =
  nc_task_id :: string
  nc_title :: string
  nc_message :: string
  nc_notification_type :: NotificationType

record notification_dict =
  nd_task_id :: string
  nd_title :: string
  nd_message :: string
  nd_notification_type :: NotificationType
  nd_created_at :: datetime
  nd_status :: NotificationStatus
  nd_sent_at :: "datetime option"


text \<open>The \<open>Field\<close> constraints: \<open>min_length\<close> and \<open>max_length\<close>.\<close>

definition length_between :: "nat \<Rightarrow> nat \<Rightarrow> string \<Rightarrow> bool" where
  "length_between lo hi s = (lo \<le> length s \<and> length s \<le> hi)"

text \<open>
  The model \<open>Reminder\<close> built from a document read back from the store: pydantic
  validates it, and a null in a required field or a string out of its bounds raises.
\<close>

definition Reminder_of :: "oid \<Rightarrow> reminder_dict \<Rightarrow> error + Reminder" where
  "Reminder_of i d =
     (case (rd_title d, rd_message d, rd_reminder_time d, rd_status d) of
        (Some t, Some m, Some rt, Some s) \<Rightarrow>
          if length_between 1 200 t \<and> length_between 1 500 m
          then Inr \<lparr>r_id = Some i, r_task_id = rd_task_id d, r_title = t, r_message = m,
                    r_reminder_time = rt, r_task_due_date = rd_task_due_date d,
                    r_status = s, r_created_at = rd_created_at d,
                    r_updated_at = rd_updated_at d, r_sent_at = rd_sent_at d\<rparr>
          else Inl ValidationError
      | _ \<Rightarrow> Inl ValidationError)"

text \<open>
  \<open>NotificationCreate(task_id=..., title=..., message=..., notification_type=...)\<close>
  from the fields of a stored reminder document.
\<close>

definition NotificationCreate_of ::
  "string \<Rightarrow> string option \<Rightarrow> string option \<Rightarrow> NotificationType \<Rightarrow> error + NotificationCreate" where
  "NotificationCreate_of tid title message ty =
     (case (title, message) of
        (Some t, Some m) \<Rightarrow>
          if length_between 1 200 t \<and> length_between 1 500 m
          then Inr \<lparr>nc_task_id = tid, nc_title = t, nc_message = m, nc_notification_type = ty\<rparr>
          else Inl ValidationError
      | _ \<Rightarrow> Inl ValidationError)"


section \<open>Notification service: store and writes that may fail\<close>

text \<open>
  The state of the notification service: its two collections, the ObjectId counter and
  the lines printed by the background delivery stub.
\<close>

record nstore =
  reminders :: "reminder_dict collection"
  notifications :: "notification_dict collection"
  next_oid :: oid
  delivered :: "string list"

text \<open>
  A write to the store can raise.  Which writes do is a parameter of every handler: a
  predicate on the write attempted.
\<close>

datatype store_write =
    Insert_reminder reminder_dict
  | Update_reminder oid
  | Delete_reminder oid
  | Insert_notification notification_dict
  | Update_notification oid

definition insert_reminder ::
  "(store_write \<Rightarrow> bool) \<Rightarrow> reminder_dict \<Rightarrow> nstore \<Rightarrow> error + nstore" where
  "insert_reminder fails d db =
     (if fails (Insert_reminder d) then Inl PyMongoError
      else Inr (db\<lparr>reminders := reminders db @ [(next_oid db, d)],
                   next_oid := next_oid db + 1\<rparr>))"

definition update_reminder_doc ::
  "(store_write \<Rightarrow> bool) \<Rightarrow> oid \<Rightarrow> (reminder_dict \<Rightarrow> reminder_dict) \<Rightarrow> nstore \<Rightarrow> error + nstore" where
  "update_reminder_doc fails i f db =
     (if fails (Update_reminder i) then Inl PyMongoError
      else Inr (db\<lparr>reminders := update_one i f (reminders db)\<rparr>))"

definition insert_notification ::
  "(store_write \<Rightarrow> bool) \<Rightarrow> notification_dict \<Rightarrow> nstore \<Rightarrow> error + nstore" where
  "insert_notification fails d db =
     (if fails (Insert_notification d) then Inl PyMongoError
      else Inr (db\<lparr>notifications := notifications db @ [(next_oid db, d)],
                   next_oid := next_oid db + 1\<rparr>))"


section \<open>Notification service: the due-reminder pass\<close>

text \<open>
  The query \<open>{"reminder_time": {"$lte": now}, "status": PENDING}\<close>: a null
  \<open>reminder_time\<close> or \<open>status\<close> matches neither condition.
\<close>

definition due :: "datetime \<Rightarrow> reminder_dict \<Rightarrow> bool" where
  "due now d =
     ((case rd_reminder_time d of None \<Rightarrow> False | Some t \<Rightarrow> t \<le> now)
      \<and> rd_status d = Some PENDING)"

definition find_due :: "datetime \<Rightarrow> reminder_dict collection \<Rightarrow> reminder_dict collection" where
  "find_due now c = filter (\<lambda>(i, d). due now d) c"

text \<open>The \<open>$set\<close> of the pass: status, \<open>sent_at\<close> and \<open>updated_at\<close>.\<close>

definition mark_sent :: "datetime \<Rightarrow> reminder_dict \<Rightarrow> reminder_dict" where
  "mark_sent now d = d\<lparr>rd_status := Some SENT, rd_sent_at := Some now, rd_updated_at := now\<rparr>"

text \<open>The notification document the pass inserts for a validated reminder.\<close>

definition sent_notification :: "datetime \<Rightarrow> NotificationCreate \<Rightarrow> notification_dict" where
  "sent_notification now n =
     \<lparr>nd_task_id = nc_task_id n, nd_title = nc_title n, nd_message = nc_message n,
      nd_notification_type = nc_notification_type n, nd_created_at = now,
      nd_status = SENT, nd_sent_at = Some now\<rparr>"

text \<open>
  The loop over \<open>due_reminders\<close>, with the counter \<open>notifications_sent\<close>.  There is no
  \<open>try\<close> in the loop body: the first exception ends the pass with the store as it is
  at that point.
\<close>

fun process_due ::
  "(store_write \<Rightarrow> bool) \<Rightarrow> datetime \<Rightarrow> reminder_dict collection \<Rightarrow> nstore \<Rightarrow> nat
     \<Rightarrow> nstore \<times> (error + nat)" where
  "process_due fails now [] db notifications_sent = (db, Inr notifications_sent)"
| "process_due fails now ((i, reminder_doc) # rest) db notifications_sent =
     (case NotificationCreate_of (rd_task_id reminder_doc) (rd_title reminder_doc)
             (rd_message reminder_doc) REMINDER of
        Inl e \<Rightarrow> (db, Inl e)
      | Inr notification \<Rightarrow>
          (case insert_notification fails (sent_notification now notification) db of
             Inl e \<Rightarrow> (db, Inl e)
           | Inr db1 \<Rightarrow>
               (case update_reminder_doc fails i (mark_sent now) db1 of
                  Inl e \<Rightarrow> (db1, Inl e)
                | Inr db2 \<Rightarrow> process_due fails now rest db2 (notifications_sent + 1))))"

definition processed_message :: "nat \<Rightarrow> json" where
  "processed_message n =
     JObject [(''message'', JString (''Processed '' @ str_nat n @ '' due reminders''))]"

definition check_due_reminders ::
  "(store_write \<Rightarrow> bool) \<Rightarrow> datetime \<Rightarrow> nstore \<Rightarrow> nstore \<times> (error + json)" where
  "check_due_reminders fails now db =
     (let due_reminders = find_due now (reminders db) in
      case process_due fails now due_reminders db 0 of
        (db', Inl e) \<Rightarrow> (db', Inl e)
      | (db', Inr notifications_sent) \<Rightarrow> (db', Inr (processed_message notifications_sent)))"

section \<open>Notification service: the other handlers\<close>

text \<open>
  \<open>ObjectId(s)\<close> belongs to the driver: the handlers take it as the parameter
  \<open>object_id\<close>, which is \<open>None\<close> where the driver raises \<open>InvalidId\<close>.  The two
  calls of \<open>datetime.utcnow()\<close> in one handler are two parameters.
\<close>

definition create_reminder ::
  "(store_write \<Rightarrow> bool) \<Rightarrow> datetime \<Rightarrow> datetime \<Rightarrow> ReminderCreate \<Rightarrow> nstore
     \<Rightarrow> nstore \<times> (error + Reminder)" where
  "create_reminder fails t1 t2 reminder db =
     (let reminder_doc =
            \<lparr>rd_task_id = rc_task_id reminder, rd_title = Some (rc_title reminder),
             rd_message = Some (rc_message reminder),
             rd_reminder_time = Some (rc_reminder_time reminder),
             rd_task_due_date = rc_task_due_date reminder, rd_status = Some PENDING,
             rd_created_at = t1, rd_updated_at = t2, rd_sent_at = None\<rparr>;
          inserted_id = next_oid db
      in case insert_reminder fails reminder_doc db of
           Inl e \<Rightarrow> (db, Inl e)
         | Inr db1 \<Rightarrow>
             (case find_one inserted_id (reminders db1) of
                None \<Rightarrow> (db1, Inl TypeError)
              | Some created_reminder \<Rightarrow> (db1, Reminder_of inserted_id created_reminder)))"

definition reminder_update_data :: "ReminderUpdate \<Rightarrow> datetime \<Rightarrow> reminder_dict \<Rightarrow> reminder_dict" where
  "reminder_update_data u now d =
     d\<lparr>rd_title := set_field (ru_title u) (rd_title d),
       rd_message := set_field (ru_message u) (rd_message d),
       rd_reminder_time := set_field (ru_reminder_time u) (rd_reminder_time d),
       rd_task_due_date := set_field (ru_task_due_date u) (rd_task_due_date d),
       rd_status := set_field (ru_status u) (rd_status d),
       rd_updated_at := now\<rparr>"

definition update_reminder ::
  "(string \<Rightarrow> oid option) \<Rightarrow> (store_write \<Rightarrow> bool) \<Rightarrow> datetime \<Rightarrow> string \<Rightarrow> ReminderUpdate
     \<Rightarrow> nstore \<Rightarrow> nstore \<times> (error + Reminder)" where
  "update_reminder object_id fails now reminder_id reminder_update db =
     (case object_id reminder_id of
        None \<Rightarrow> (db, Inl (HTTPException 400 ''Invalid reminder ID format''))
      | Some i \<Rightarrow>
          (case find_one i (reminders db) of
             None \<Rightarrow> (db, Inl (HTTPException 404 ''Reminder not found''))
           | Some existing_reminder \<Rightarrow>
               (case update_reminder_doc fails i (reminder_update_data reminder_update now) db of
                  Inl e \<Rightarrow> (db, Inl e)
                | Inr db1 \<Rightarrow>
                    (case find_one i (reminders db1) of
                       None \<Rightarrow> (db1, Inl TypeError)
                     | Some updated_reminder \<Rightarrow> (db1, Reminder_of i updated_reminder)))))"

definition delete_reminder ::
  "(string \<Rightarrow> oid option) \<Rightarrow> (store_write \<Rightarrow> bool) \<Rightarrow> string \<Rightarrow> nstore
     \<Rightarrow> nstore \<times> (error + json)" where
  "delete_reminder object_id fails reminder_id db =
     (case object_id reminder_id of
        None \<Rightarrow> (db, Inl (HTTPException 400 ''Invalid reminder ID format''))
      | Some i \<Rightarrow>
          if fails (Delete_reminder i) then (db, Inl PyMongoError)
          else if matched_count i (reminders db) = 0
            then (db\<lparr>reminders := delete_one i (reminders db)\<rparr>,
                  Inl (HTTPException 404 ''Reminder not found''))
            else (db\<lparr>reminders := delete_one i (reminders db)\<rparr>,
                  Inr (JObject [(''message'', JString ''Reminder deleted successfully'')])))"


section \<open>Task service: models\<close>

datatype TaskPriority = LOW | MEDIUM | HIGH | URGENT

datatype TaskStatus = T_PENDING | T_IN_PROGRESS | T_COMPLETED | T_CANCELLED

record TaskCreate =
  tc_title :: string
  tc_description :: "string option"
  tc_priority :: TaskPriority
  tc_category :: "string option"
  tc_due_date :: "datetime option"
  tc_reminder_enabled :: bool
  tc_reminder_time :: "datetime option"

record TaskUpdate =
  tu_title :: "string option option"
  tu_description :: "string option option"
  tu_priority :: "TaskPriority option option"
  tu_category :: "string option option"
  tu_due_date :: "datetime option option"
  tu_reminder_enabled :: "bool option option"
  tu_reminder_time :: "datetime option option"
  tu_status :: "TaskStatus option option"

text \<open>A stored task document; every field \<open>TaskUpdate\<close> can write is nullable.\<close>

record task_dict =
  td_title :: "string option"
  td_description :: "string option"
  td_priority :: "TaskPriority option"
  td_category :: "string option"
  td_due_date :: "datetime option"
  td_reminder_enabled :: "bool option"
  td_reminder_time :: "datetime option"
  td_status :: "TaskStatus option"
  td_created_at :: datetime
  td_updated_at :: datetime
  td_completed_at :: "datetime option"

record Task =
  t_id :: "oid option"
  t_title :: string
  t_description :: "string option"
  t_priority :: TaskPriority
  t_category :: "string option"
  t_due_date :: "datetime option"
  t_reminder_enabled :: bool
  t_reminder_time :: "datetime option"
  t_status :: TaskStatus
  t_created_at :: datetime
  t_updated_at :: datetime
  t_completed_at :: "datetime option"

definition opt_max_length :: "nat \<Rightarrow> string option \<Rightarrow> bool" where
  "opt_max_length hi s = (case s of None \<Rightarrow> True | Some x \<Rightarrow> length x \<le> hi)"

text \<open>The model \<open>Task\<close> built from a stored document, with the constraints of \<open>TaskBase\<close>.\<close>

definition Task_of :: "oid \<Rightarrow> task_dict \<Rightarrow> error + Task" where
  "Task_of i d =
     (case (td_title d, td_priority d, td_reminder_enabled d, td_status d) of
        (Some t, Some p, Some re, Some s) \<Rightarrow>
          if length_between 1 200 t \<and> opt_max_length 1000 (td_description d)
             \<and> opt_max_length 100 (td_category d)
          then Inr \<lparr>t_id = Some i, t_title = t, t_description = td_description d,
                    t_priority = p, t_category = td_category d, t_due_date = td_due_date d,
                    t_reminder_enabled = re, t_reminder_time = td_reminder_time d,
                    t_status = s, t_created_at = td_created_at d,
                    t_updated_at = td_updated_at d, t_completed_at = td_completed_at d\<rparr>
          else Inl ValidationError
      | _ \<Rightarrow> Inl ValidationError)"

section \<open>Task service: the reminder bridge\<close>

text \<open>
  The JSON body of the \<open>POST /reminders\<close> request.  ObjectIds and timestamps are kept
  as they are; on the wire they are their string renderings.
\<close>

record reminder_request =
  rq_task_id :: "oid option"
  rq_title :: string
  rq_message :: string
  rq_reminder_time :: datetime
  rq_task_due_date :: "datetime option"

text \<open>
  What the HTTP client does with a request is a parameter: it returns a response with a
  status code, or raises an \<open>Exception\<close> with a message.
\<close>

datatype post_outcome = Responded nat | Raised string

text \<open>
  The state of the task service: its collection, the ObjectId counter, the requests the
  bridge has handed to the HTTP client (whether or not the client then raised) and the
  lines it has printed.
\<close>

record tstore =
  tasks :: "task_dict collection"
  task_next_oid :: oid
  posted :: "reminder_request list"
  printed :: "string list"

definition reminder_request_of :: "Task \<Rightarrow> datetime \<Rightarrow> reminder_request" where
  "reminder_request_of task rt =
     \<lparr>rq_task_id = t_id task,
      rq_title = ''Reminder: '' @ t_title task,
      rq_message = ''Task '' @ [CHR 0x27] @ t_title task @ [CHR 0x27] @ '' is due soon'',
      rq_reminder_time = rt,
      rq_task_due_date = t_due_date task\<rparr>"

definition notify_reminder_service ::
  "(reminder_request \<Rightarrow> post_outcome) \<Rightarrow> Task \<Rightarrow> tstore \<Rightarrow> tstore" where
  "notify_reminder_service net task w =
     (case t_reminder_time task of
        None \<Rightarrow> w
      | Some rt \<Rightarrow>
          if t_reminder_enabled task then
            (let request = reminder_request_of task rt in
             case net request of
               Responded code \<Rightarrow> w\<lparr>posted := posted w @ [request]\<rparr>
             | Raised e \<Rightarrow>
                 w\<lparr>posted := posted w @ [request],
                   printed := printed w @ [''Failed to notify reminder service: '' @ e]\<rparr>)
          else w)"

section \<open>Task service: handlers\<close>

definition create_task ::
  "(reminder_request \<Rightarrow> post_outcome) \<Rightarrow> datetime \<Rightarrow> datetime \<Rightarrow> TaskCreate \<Rightarrow> tstore
     \<Rightarrow> tstore \<times> (error + Task)" where
  "create_task net t1 t2 task w =
     (let task_doc =
            \<lparr>td_title = Some (tc_title task), td_description = tc_description task,
             td_priority = Some (tc_priority task), td_category = tc_category task,
             td_due_date = tc_due_date task,
             td_reminder_enabled = Some (tc_reminder_enabled task),
             td_reminder_time = tc_reminder_time task, td_status = Some T_PENDING,
             td_created_at = t1, td_updated_at = t2, td_completed_at = None\<rparr>;
          inserted_id = task_next_oid w;
          w1 = w\<lparr>tasks := tasks w @ [(inserted_id, task_doc)],
                 task_next_oid := task_next_oid w + 1\<rparr>
      in case find_one inserted_id (tasks w1) of
           None \<Rightarrow> (w1, Inl TypeError)
         | Some created_task \<Rightarrow>
             (case Task_of inserted_id created_task of
                Inl e \<Rightarrow> (w1, Inl e)
              | Inr task_obj \<Rightarrow> (notify_reminder_service net task_obj w1, Inr task_obj)))"

definition task_update_data :: "TaskUpdate \<Rightarrow> datetime \<Rightarrow> task_dict \<Rightarrow> task_dict" where
  "task_update_data u now d =
     d\<lparr>td_title := set_field (tu_title u) (td_title d),
       td_description := set_field (tu_description u) (td_description d),
       td_priority := set_field (tu_priority u) (td_priority d),
       td_category := set_field (tu_category u) (td_category d),
       td_due_date := set_field (tu_due_date u) (td_due_date d),
       td_reminder_enabled := set_field (tu_reminder_enabled u) (td_reminder_enabled d),
       td_reminder_time := set_field (tu_reminder_time u) (td_reminder_time d),
       td_status := set_field (tu_status u) (td_status d),
       td_updated_at := now\<rparr>"

definition update_task ::
  "(string \<Rightarrow> oid option) \<Rightarrow> (reminder_request \<Rightarrow> post_outcome) \<Rightarrow> datetime \<Rightarrow> string
     \<Rightarrow> TaskUpdate \<Rightarrow> tstore \<Rightarrow> tstore \<times> (error + Task)" where
  "update_task object_id net now task_id task_update w =
     (case object_id task_id of
        None \<Rightarrow> (w, Inl (HTTPException 400 ''Invalid task ID format''))
      | Some i \<Rightarrow>
          (case find_one i (tasks w) of
             None \<Rightarrow> (w, Inl (HTTPException 404 ''Task not found''))
           | Some existing_task \<Rightarrow>
               (let w1 = w\<lparr>tasks := update_one i (task_update_data task_update now) (tasks w)\<rparr>
                in case find_one i (tasks w1) of
                     None \<Rightarrow> (w1, Inl TypeError)
                   | Some updated_task \<Rightarrow>
                       (case Task_of i updated_task of
                          Inl e \<Rightarrow> (w1, Inl e)
                        | Inr task_obj \<Rightarrow>
                            if tu_reminder_enabled task_update \<noteq> None
                               \<or> tu_reminder_time task_update \<noteq> None
                            then (notify_reminder_service net task_obj w1, Inr task_obj)
                            else (w1, Inr task_obj)))))"

definition delete_task ::
  "(string \<Rightarrow> oid option) \<Rightarrow> string \<Rightarrow> tstore \<Rightarrow> tstore \<times> (error + json)" where
  "delete_task object_id task_id w =
     (case object_id task_id of
        None \<Rightarrow> (w, Inl (HTTPException 400 ''Invalid task ID format''))
      | Some i \<Rightarrow>
          (let w1 = w\<lparr>tasks := delete_one i (tasks w)\<rparr>
           in if matched_count i (tasks w) = 0
              then (w1, Inl (HTTPException 404 ''Task not found''))
              else (w1, Inr (JObject [(''message'', JString ''Task deleted successfully'')]))))"

definition complete_data :: "datetime \<Rightarrow> datetime \<Rightarrow> task_dict \<Rightarrow> task_dict" where
  "complete_data t1 t2 d =
     d\<lparr>td_status := Some T_COMPLETED, td_completed_at := Some t1, td_updated_at := t2\<rparr>"

definition complete_task ::
  "(string \<Rightarrow> oid option) \<Rightarrow> datetime \<Rightarrow> datetime \<Rightarrow> string \<Rightarrow> tstore
     \<Rightarrow> tstore \<times> (error + Task)" where
  "complete_task object_id t1 t2 task_id w =
     (case object_id task_id of
        None \<Rightarrow> (w, Inl (HTTPException 400 ''Invalid task ID format''))
      | Some i \<Rightarrow>
          (let w1 = w\<lparr>tasks := update_one i (complete_data t1 t2) (tasks w)\<rparr>
           in if matched_count i (tasks w) = 0
              then (w1, Inl (HTTPException 404 ''Task not found''))
              else (case find_one i (tasks w1) of
                      None \<Rightarrow> (w1, Inl TypeError)
                    | Some updated_task \<Rightarrow> (w1, Task_of i updated_task))))"

text \<open>A sequence of requests to the task service, each with the clock readings it sees.\<close>

datatype task_op =
    Create TaskCreate datetime datetime
  | Update string TaskUpdate datetime
  | Complete string datetime datetime
  | Delete string

fun step ::
  "(string \<Rightarrow> oid option) \<Rightarrow> (reminder_request \<Rightarrow> post_outcome) \<Rightarrow> task_op \<Rightarrow> tstore \<Rightarrow> tstore" where
  "step object_id net (Create task t1 t2) w = fst (create_task net t1 t2 task w)"
| "step object_id net (Update task_id u now) w = fst (update_task object_id net now task_id u w)"
| "step object_id net (Complete task_id t1 t2) w = fst (complete_task object_id t1 t2 task_id w)"
| "step object_id net (Delete task_id) w = fst (delete_task object_id task_id w)"

fun run ::
  "(string \<Rightarrow> oid option) \<Rightarrow> (reminder_request \<Rightarrow> post_outcome) \<Rightarrow> task_op list \<Rightarrow> tstore \<Rightarrow> tstore" where
  "run object_id net [] w = w"
| "run object_id net (op # ops) w = run object_id net ops (step object_id net op w)"

section \<open>Closed forms of the due-reminder pass\<close>

text \<open>
  The notification the pass builds for a reminder document, when the document passes
  the validation of \<open>NotificationCreate\<close>.
\<close>

definition notification_for :: "datetime \<Rightarrow> reminder_dict \<Rightarrow> notification_dict option" where
  "notification_for now d =
     (case NotificationCreate_of (rd_task_id d) (rd_title d) (rd_message d) REMINDER of
        Inl e \<Rightarrow> None
      | Inr n \<Rightarrow> Some (sent_notification now n))"

text \<open>
  A reminder is processed to the end when its notification validates and neither of its
  two writes raises.
\<close>

definition step_ok :: "(store_write \<Rightarrow> bool) \<Rightarrow> datetime \<Rightarrow> oid \<times> reminder_dict \<Rightarrow> bool" where
  "step_ok fails now x =
     (case notification_for now (snd x) of
        None \<Rightarrow> False
      | Some nd \<Rightarrow> \<not> fails (Insert_notification nd) \<and> \<not> fails (Update_reminder (fst x)))"

text \<open>
  The store after the reminders \<open>pre\<close> have been processed to the end: each is marked
  sent, and one notification per reminder is appended under a fresh id.
\<close>

definition after_sent :: "datetime \<Rightarrow> reminder_dict collection \<Rightarrow> nstore \<Rightarrow> nstore" where
  "after_sent now pre db =
     db\<lparr>reminders :=
          map (\<lambda>(j, e). (j, if j \<in> fst ` set pre then mark_sent now e else e)) (reminders db),
        notifications :=
          notifications db
            @ zip [next_oid db ..< next_oid db + length pre]
                  (List.map_filter (\<lambda>(j, e). notification_for now e) pre),
        next_oid := next_oid db + length pre\<rparr>"

section \<open>Example stores\<close>

definition example_reminder :: "string \<Rightarrow> datetime \<Rightarrow> NotificationStatus \<Rightarrow> reminder_dict" where
  "example_reminder tid t s =
     \<lparr>rd_task_id = tid, rd_title = Some ''Reminder: Pay rent'',
      rd_message = Some ''Task is due soon'', rd_reminder_time = Some t,
      rd_task_due_date = None, rd_status = Some s, rd_created_at = 0, rd_updated_at = 0,
      rd_sent_at = None\<rparr>"

definition example_db :: nstore where
  "example_db =
     \<lparr>reminders = [(0, example_reminder ''a'' 50 PENDING), (1, example_reminder ''b'' 200 PENDING),
                   (2, example_reminder ''c'' 60 SENT), (3, example_reminder ''d'' 70 PENDING)],
      notifications = [], next_oid = 4, delivered = []\<rparr>"

definition idle_db :: nstore where
  "idle_db =
     \<lparr>reminders = [(1, example_reminder ''b'' 200 PENDING), (2, example_reminder ''c'' 60 SENT)],
      notifications = [], next_oid = 4, delivered = []\<rparr>"

definition no_faults :: "store_write \<Rightarrow> bool" where
  "no_faults w = False"

text \<open>
  The number of reminders a pass has moved from pending to sent: the documents of the
  store before and after, compared position by position.
\<close>

definition newly_sent :: "nstore \<Rightarrow> nstore \<Rightarrow> nat" where
  "newly_sent db db' =
     length (filter (\<lambda>(x, y). rd_status (snd x) = Some PENDING \<and> rd_status (snd y) = Some SENT)
               (zip (reminders db) (reminders db')))"

definition one_due_db :: nstore where
  "one_due_db =
     \<lparr>reminders = [(0, example_reminder ''a'' 50 PENDING)],
      notifications = [], next_oid = 1, delivered = []\<rparr>"

definition three_due_db :: nstore where
  "three_due_db =
     \<lparr>reminders = [(0, example_reminder ''a'' 50 PENDING), (1, example_reminder ''b'' 60 PENDING),
                   (2, example_reminder ''c'' 70 PENDING)],
      notifications = [], next_oid = 3, delivered = []\<rparr>"

definition update_of_1_fails :: "store_write \<Rightarrow> bool" where
  "update_of_1_fails w = (w = Update_reminder 1)"

definition example_object_id :: "string \<Rightarrow> oid option" where
  "example_object_id s =
     (if s = ''000000000000000000000000'' then Some 0
      else if s = ''000000000000000000000001'' then Some 1
      else None)"

definition sent_db :: nstore where
  "sent_db =
     \<lparr>reminders = [(0, example_reminder ''a'' 50 SENT)],
      notifications = [], next_oid = 1, delivered = []\<rparr>"

definition back_to_pending :: ReminderUpdate where
  "back_to_pending =
     \<lparr>ru_title = None, ru_message = None, ru_reminder_time = None, ru_task_due_date = None,
      ru_status = Some (Some PENDING)\<rparr>"


section \<open>Statements about the task service\<close>

text \<open>The completion marker: a stored task is completed exactly when it has \<open>completed_at\<close>.\<close>

definition completion_invariant :: "tstore \<Rightarrow> bool" where
  "completion_invariant w =
     list_all (\<lambda>(i, d). (td_status d = Some T_COMPLETED) = (td_completed_at d \<noteq> None)) (tasks w)"

text \<open>A request that does not write the status field: every request but an update carrying one.\<close>

fun keeps_status :: "task_op \<Rightarrow> bool" where
  "keeps_status (Create task t1 t2) = True"
| "keeps_status (Update task_id u now) = (tu_status u = None)"
| "keeps_status (Complete task_id t1 t2) = True"
| "keeps_status (Delete task_id) = True"

definition empty_tstore :: tstore where
  "empty_tstore = \<lparr>tasks = [], task_next_oid = 0, posted = [], printed = []\<rparr>"

definition example_task :: TaskCreate where
  "example_task =
     \<lparr>tc_title = ''Pay rent'', tc_description = None, tc_priority = HIGH, tc_category = None,
      tc_due_date = Some 1000, tc_reminder_enabled = True, tc_reminder_time = Some 900\<rparr>"

definition unreachable_net :: "reminder_request \<Rightarrow> post_outcome" where
  "unreachable_net request = Raised ''connection refused''"

definition reachable_net :: "reminder_request \<Rightarrow> post_outcome" where
  "reachable_net request = Responded 200"

definition no_update :: TaskUpdate where
  "no_update =
     \<lparr>tu_title = None, tu_description = None, tu_priority = None, tu_category = None,
      tu_due_date = None, tu_reminder_enabled = None, tu_reminder_time = None,
      tu_status = None\<rparr>"

definition id0 :: string where
  "id0 = ''000000000000000000000000''"

definition touch_reminder :: TaskUpdate where
  "touch_reminder = no_update\<lparr>tu_reminder_time := Some (Some 950)\<rparr>"

definition rename_task :: TaskUpdate where
  "rename_task = no_update\<lparr>tu_title := Some (Some ''Pay the rent'')\<rparr>"

definition one_task_store :: tstore where
  "one_task_store = fst (create_task reachable_net 1 2 example_task empty_tstore)"

definition mark_completed :: TaskUpdate where
  "mark_completed = no_update\<lparr>tu_status := Some (Some T_COMPLETED)\<rparr>"

definition example_task_doc :: task_dict where
  "example_task_doc =
     \<lparr>td_title = Some ''Pay rent'', td_description = None, td_priority = Some HIGH,
      td_category = None, td_due_date = Some 1000, td_reminder_enabled = Some True,
      td_reminder_time = Some 900, td_status = Some T_PENDING, td_created_at = 1,
      td_updated_at = 2, td_completed_at = None\<rparr>"

definition null_title :: ReminderUpdate where
  "null_title =
     \<lparr>ru_title = Some None, ru_message = None, ru_reminder_time = None,
      ru_task_due_date = None, ru_status = None\<rparr>"

definition null_title_db :: nstore where
  "null_title_db =
     fst (update_reminder example_object_id no_faults 90 ''000000000000000000000000''
            null_title three_due_db)"

section \<open>Frontend service: the completion rate\<close>

text \<open>
  The dashboard computes
  \<^verbatim>\<open>(stats['completed_tasks'] / stats['total_tasks'] * 100) if stats['total_tasks'] > 0 else 0\<close>
  and shows it with the format \<^verbatim>\<open>.1f\<close>.  The two counts are Python integers;
  \<^verbatim>\<open>/\<close> and \<^verbatim>\<open>*\<close> are binary64 operations, each the exact result rounded to the
  nearest float, ties to even.  A float is modelled by the rational number it denotes.
  The exponent range of binary64 is left out: it is never reached by a quotient of two
  counts times 100.
\<close>

text \<open>Rounding to the nearest integer, ties to the even one.\<close>

definition rne :: "rat \<Rightarrow> int" where
  "rne x =
     (let f = \<lfloor>x\<rfloor>; r = x - of_int f
      in if r < 1 / 2 then f else if 1 / 2 < r then f + 1 else if even f then f else f + 1)"

text \<open>The position of the leading bit of a positive integer.\<close>

function ilog2 :: "int \<Rightarrow> nat" where
  "ilog2 n = (if n < 2 then 0 else Suc (ilog2 (n div 2)))"
  by pat_completeness auto
termination
  by (relation "measure nat") auto

declare ilog2.simps [simp del]

text \<open>The binary exponent of a positive rational: the \<open>e\<close> with \<open>2\<^sup>e \<le> x < 2\<^sup>e\<^sup>+\<^sup>1\<close>.\<close>

definition exponent :: "rat \<Rightarrow> int" where
  "exponent x =
     (let (p, q) = quotient_of x;
          d = int (ilog2 p) - int (ilog2 q)
      in if 2 powi d \<le> x then d else d - 1)"

text \<open>The nearest binary64 number: 53 significant bits, ties to even.\<close>

definition fl :: "rat \<Rightarrow> rat" where
  "fl x =
     (if x = 0 then 0
      else sgn x * (let a = \<bar>x\<bar>; s = 2 powi (exponent a - 52)
                    in of_int (rne (a / s)) * s))"

text \<open>The value of \<open>completion_rate\<close> is the integer 0 or a float.\<close>

datatype py_number = PyInt int | PyFloat rat

definition completion_rate :: "nat \<Rightarrow> nat \<Rightarrow> py_number" where
  "completion_rate completed_tasks total_tasks =
     (if total_tasks > 0
      then PyFloat (fl (fl (of_nat completed_tasks / of_nat total_tasks) * 100))
      else PyInt 0)"

text \<open>
  What the format \<^verbatim>\<open>.1f\<close> prints, as a number of tenths: the decimal nearest to the
  exact value of the float, ties to even.
\<close>

fun tenths :: "py_number \<Rightarrow> int" where
  "tenths (PyInt n) = 10 * n"
| "tenths (PyFloat x) = rne (x * 10)"

section \<open>Properties of the due-reminder pass\<close>

lemma update_one_distinct:
  "distinct (map fst c) \<Longrightarrow>
     update_one i f c = map (\<lambda>(j, d). (j, if j = i then f d else d)) c"
proof (induction c)
  case Nil
  then show ?case by simp
next
  case (Cons x c)
  obtain j d where x: "x = (j, d)" by (cases x)
  show ?case
  proof (cases "j = i")
    case True
    with Cons.prems x have "i \<notin> fst ` set c" by auto
    then have "map (\<lambda>(j, d). (j, if j = i then f d else d)) c = c"
      by (induction c) auto
    with True x show ?thesis by simp
  next
    case False
    with Cons x show ?thesis by simp
  qed
qed

lemma map_fst_update_one [simp]: "map fst (update_one i f c) = map fst c"
  by (induction c) auto

lemma mark_sent_idem [simp]: "mark_sent now (mark_sent now d) = mark_sent now d"
  by (simp add: mark_sent_def)

lemma after_sent_Nil [simp]: "after_sent now [] db = db"
  by (simp add: after_sent_def)

lemma after_sent_step:
  assumes "distinct (map fst (reminders db))"
    and "notification_for now d = Some nd"
  shows "after_sent now pre
           (db\<lparr>notifications := notifications db @ [(next_oid db, nd)],
               next_oid := next_oid db + 1,
               reminders := update_one i (mark_sent now) (reminders db)\<rparr>)
         = after_sent now ((i, d) # pre) db"
proof -
  have r: "map (\<lambda>(j, e). (j, if j \<in> fst ` set pre then mark_sent now e else e))
             (update_one i (mark_sent now) (reminders db))
           = map (\<lambda>(j, e). (j, if j \<in> fst ` set ((i, d) # pre) then mark_sent now e else e))
               (reminders db)"
    using assms(1) by (simp add: update_one_distinct) auto
  have n: "\<And>a k. [a ..< Suc (a + k)] = a # [Suc a ..< Suc (a + k)]"
    by (simp add: upt_conv_Cons)
  show ?thesis
    unfolding after_sent_def using r assms(2)
    by (simp add: n del: upt_Suc)
qed

lemma process_due_prefix:
  assumes "distinct (map fst (reminders db))"
    and "\<forall>x\<in>set pre. step_ok fails now x"
  shows "process_due fails now (pre @ rest) db n
         = process_due fails now rest (after_sent now pre db) (n + length pre)"
  using assms
proof (induction pre arbitrary: db n)
  case Nil
  then show ?case by simp
next
  case (Cons x pre)
  obtain i d where x: "x = (i, d)" by (cases x)
  from Cons.prems(2) x obtain nd where nd: "notification_for now d = Some nd"
    and ins: "\<not> fails (Insert_notification nd)" and upd: "\<not> fails (Update_reminder i)"
    by (auto simp: step_ok_def split: option.splits)
  from nd obtain nc where nc: "NotificationCreate_of (rd_task_id d) (rd_title d) (rd_message d) REMINDER = Inr nc"
    and nd_eq: "nd = sent_notification now nc"
    by (auto simp: notification_for_def split: sum.splits)
  let ?db2 = "db\<lparr>notifications := notifications db @ [(next_oid db, nd)],
               next_oid := next_oid db + 1,
               reminders := update_one i (mark_sent now) (reminders db)\<rparr>"
  have step: "process_due fails now (x # pre @ rest) db n
              = process_due fails now (pre @ rest) ?db2 (n + 1)"
    using x nc nd_eq ins upd
    by (simp add: insert_notification_def update_reminder_doc_def)
  have d2: "distinct (map fst (reminders ?db2))"
    using Cons.prems(1) by simp
  have "process_due fails now (pre @ rest) ?db2 (n + 1)
        = process_due fails now rest (after_sent now pre ?db2) (n + 1 + length pre)"
    using Cons.IH [OF d2] Cons.prems(2) by simp
  also have "after_sent now pre ?db2 = after_sent now (x # pre) db"
    using after_sent_step [OF Cons.prems(1) nd] x by simp
  finally show ?case using step by simp
qed


lemma find_due_ids:
  assumes "distinct (map fst c)" and "(j, e) \<in> set c"
  shows "j \<in> fst ` set (find_due now c) \<longleftrightarrow> due now e"
proof
  assume "j \<in> fst ` set (find_due now c)"
  then obtain e' where e': "(j, e') \<in> set c" "due now e'"
    by (auto simp: find_due_def)
  from assms e'(1) have "e' = e"
    by (meson eq_key_imp_eq_value)
  with e'(2) show "due now e" by simp
next
  assume "due now e"
  with assms(2) have "(j, e) \<in> set (find_due now c)"
    by (simp add: find_due_def)
  then show "j \<in> fst ` set (find_due now c)"
    by force
qed

lemma mark_due_ids:
  assumes "distinct (map fst c)"
  shows "map (\<lambda>(j, e). (j, if j \<in> fst ` set (find_due now c) then mark_sent now e else e)) c
         = map (\<lambda>(j, e). (j, if due now e then mark_sent now e else e)) c"
  using find_due_ids [OF assms] by (intro map_cong) auto

lemma process_due_all_ok:
  assumes "distinct (map fst (reminders db))"
    and "\<forall>x\<in>set ds. step_ok fails now x"
  shows "process_due fails now ds db n = (after_sent now ds db, Inr (n + length ds))"
  using process_due_prefix [OF assms, of "[]" n] by simp

lemma map_snd_zip_upt: "length ys = k \<Longrightarrow> map snd (zip [a ..< a + k] ys) = ys"
  by simp

lemma length_map_filter_ok:
  "\<forall>x\<in>set ds. step_ok fails now x \<Longrightarrow>
     length (List.map_filter (\<lambda>(j, e). notification_for now e) ds) = length ds"
  by (induction ds) (auto simp: step_ok_def split: option.splits)

text \<open>
  Claim C8.  When no reminder is pending and due, the pass returns with the counter at 0
  and the message for 0, and the store it leaves is the store it found: no notification
  is inserted and no reminder is written, whatever writes would have failed.
\<close>

theorem idle_pass_no_side_effects:
  assumes "\<forall>(i, d)\<in>set (reminders db). \<not> due now d"
  shows "process_due fails now (find_due now (reminders db)) db 0 = (db, Inr 0)
         \<and> check_due_reminders fails now db
           = (db, Inr (JObject [(''message'', JString ''Processed 0 due reminders'')]))"
proof -
  from assms have "find_due now (reminders db) = []"
    by (auto simp: find_due_def filter_empty_conv)
  then show ?thesis
    by (simp add: check_due_reminders_def processed_message_def str_nat.simps digit_char_def)
qed

theorem idle_pass_no_side_effects_witness:
  "list_all (\<lambda>(i, d). \<not> due 100 d) (reminders idle_db)
   \<and> check_due_reminders (\<lambda>w. True) 100 idle_db
     = (idle_db, Inr (JObject [(''message'', JString ''Processed 0 due reminders'')]))"
proof -
  have h: "\<forall>(i, d)\<in>set (reminders idle_db). \<not> due 100 d"
    by (simp add: idle_db_def example_reminder_def due_def)
  show ?thesis
    using h idle_pass_no_side_effects [OF h, of "\<lambda>w. True"] by (simp add: list_all_iff)
qed

lemma null_title_db_eq:
  "null_title_db
   = \<lparr>reminders = [(0, (example_reminder ''a'' 50 PENDING)\<lparr>rd_title := None, rd_updated_at := 90\<rparr>),
                    (1, example_reminder ''b'' 60 PENDING),
                    (2, example_reminder ''c'' 70 PENDING)],
      notifications = [], next_oid = 3, delivered = []\<rparr>"
  by (simp add: null_title_db_def update_reminder_def example_object_id_def three_due_db_def
      find_one_def update_reminder_doc_def no_faults_def reminder_update_data_def
      null_title_def set_field_def example_reminder_def)

text \<open>
  Claim C1, as stated, fails.  After \<open>PUT /reminders/{id}\<close> with a null title on the
  first of three pending reminders, all three are still due at time 100, no write
  fails, and yet the pass ends in the validation error of \<open>NotificationCreate\<close>: the
  store is left as it was, with every due reminder still pending and no notification.
\<close>

theorem null_title_stops_pass:
  "map (\<lambda>(i, d). (due 100 d, rd_status d)) (reminders null_title_db)
     = [(True, Some PENDING), (True, Some PENDING), (True, Some PENDING)]
   \<and> check_due_reminders no_faults 100 null_title_db = (null_title_db, Inl ValidationError)"
  by (simp add: null_title_db_eq check_due_reminders_def find_due_def due_def
      example_reminder_def NotificationCreate_of_def)

text \<open>
  Claim C1, amended.  In a store whose reminder ids are distinct, a pass in which every
  due reminder passes the validation of \<open>NotificationCreate\<close> and no write raises
  marks exactly the reminders that are pending with \<open>reminder_time \<le> now\<close> as sent,
  leaves every other reminder document as it was, and appends one notification per due
  reminder.
\<close>

theorem pass_processes_exactly_due:
  assumes "distinct (map fst (reminders db))"
    and "\<forall>x\<in>set (find_due now (reminders db)). step_ok fails now x"
  shows "reminders (fst (check_due_reminders fails now db))
           = map (\<lambda>(i, d). (i, if due now d then mark_sent now d else d)) (reminders db)
         \<and> map snd (notifications (fst (check_due_reminders fails now db)))
           = map snd (notifications db)
               @ List.map_filter (\<lambda>(i, d). notification_for now d) (find_due now (reminders db))
         \<and> length (notifications (fst (check_due_reminders fails now db)))
           = length (notifications db) + length (find_due now (reminders db))"
proof -
  let ?ds = "find_due now (reminders db)"
  have run: "check_due_reminders fails now db
             = (after_sent now ?ds db, Inr (processed_message (length ?ds)))"
    using process_due_all_ok [OF assms, of 0]
    by (simp add: check_due_reminders_def)
  have len: "length (List.map_filter (\<lambda>(j, e). notification_for now e) ?ds) = length ?ds"
    using assms(2) by (rule length_map_filter_ok)
  have r: "reminders (after_sent now ?ds db)
           = map (\<lambda>(i, d). (i, if due now d then mark_sent now d else d)) (reminders db)"
    using mark_due_ids [OF assms(1)] by (simp add: after_sent_def)
  have n: "map snd (notifications (after_sent now ?ds db))
           = map snd (notifications db) @ List.map_filter (\<lambda>(i, d). notification_for now d) ?ds"
    using len by (simp add: after_sent_def map_snd_zip_upt)
  have l: "length (notifications (after_sent now ?ds db))
           = length (notifications db) + length ?ds"
    using len by (simp add: after_sent_def)
  show ?thesis using run r n l by simp
qed

lemma example_due: "find_due 100 (reminders example_db)
   = [(0, example_reminder ''a'' 50 PENDING), (3, example_reminder ''d'' 70 PENDING)]"
  by (simp add: find_due_def example_db_def example_reminder_def due_def)

theorem pass_processes_exactly_due_witness:
  "distinct (map fst (reminders example_db))
   \<and> list_all (step_ok no_faults 100) (find_due 100 (reminders example_db))
   \<and> map (\<lambda>(i, d). (i, rd_status d)) (reminders (fst (check_due_reminders no_faults 100 example_db)))
     = [(0, Some SENT), (1, Some PENDING), (2, Some SENT), (3, Some SENT)]
   \<and> length (notifications (fst (check_due_reminders no_faults 100 example_db))) = 2"
proof -
  have h1: "distinct (map fst (reminders example_db))"
    by (simp add: example_db_def)
  have h2: "\<forall>x\<in>set (find_due 100 (reminders example_db)). step_ok no_faults 100 x"
    by (simp add: example_due step_ok_def notification_for_def NotificationCreate_of_def
        example_reminder_def length_between_def no_faults_def)
  show ?thesis
    using h1 h2 pass_processes_exactly_due [OF h1 h2]
    by (simp add: example_due list_all_iff)
     (simp add: example_db_def example_reminder_def due_def mark_sent_def)
qed

lemma newly_sent_marked:
  assumes "rs' = map (\<lambda>(i, d). (i, if due now d then mark_sent now d else d)) rs"
  shows "length (filter (\<lambda>(x, y). rd_status (snd x) = Some PENDING \<and> rd_status (snd y) = Some SENT)
                   (zip rs rs'))
         = length (filter (\<lambda>(i, d). due now d) rs)"
  unfolding assms
proof (induction rs)
  case Nil
  then show ?case by simp
next
  case (Cons x rs)
  obtain i d where x: "x = (i, d)" by (cases x)
  show ?case using Cons x
    by (auto simp: due_def mark_sent_def)
qed

lemma str_nat_1: "str_nat (Suc 0) = ''1''"
  by (subst str_nat.simps) (simp add: digit_char_def)

lemma str_nat_2: "str_nat (Suc (Suc 0)) = ''2''"
  by (subst str_nat.simps) (simp add: digit_char_def)

text \<open>
  Claim C3, as stated, fails: after a pass that processes one due reminder the response
  body is the object with the single key \<open>message\<close>, not \<open>{processed_count: 1}\<close>.
\<close>

theorem response_is_not_processed_count:
  "snd (check_due_reminders no_faults 100 one_due_db)
     = Inr (JObject [(''message'', JString ''Processed 1 due reminders'')])
   \<and> snd (check_due_reminders no_faults 100 one_due_db)
     \<noteq> Inr (JObject [(''processed_count'', JInt 1)])"
  by (simp add: check_due_reminders_def find_due_def one_due_db_def example_reminder_def
      due_def NotificationCreate_of_def length_between_def insert_notification_def
      update_reminder_doc_def no_faults_def processed_message_def str_nat_1)

text \<open>
  Claim C3, amended.  A pass in which no step raises answers with the object
  \<open>{message: "Processed n due reminders"}\<close>, where \<open>n\<close> is the number of reminders the
  pass has moved from pending to sent, which is the number of due reminders it found.
\<close>

theorem pass_reports_count_in_message:
  assumes "distinct (map fst (reminders db))"
    and "\<forall>x\<in>set (find_due now (reminders db)). step_ok fails now x"
  shows "snd (check_due_reminders fails now db)
           = Inr (JObject [(''message'',
                  JString (''Processed ''
                     @ str_nat (newly_sent db (fst (check_due_reminders fails now db)))
                     @ '' due reminders''))])
         \<and> newly_sent db (fst (check_due_reminders fails now db))
           = length (find_due now (reminders db))"
proof -
  let ?ds = "find_due now (reminders db)"
  have run: "check_due_reminders fails now db
             = (after_sent now ?ds db, Inr (processed_message (length ?ds)))"
    using process_due_all_ok [OF assms, of 0]
    by (simp add: check_due_reminders_def)
  have r: "reminders (after_sent now ?ds db)
           = map (\<lambda>(i, d). (i, if due now d then mark_sent now d else d)) (reminders db)"
    using mark_due_ids [OF assms(1)] by (simp add: after_sent_def)
  have c: "newly_sent db (after_sent now ?ds db) = length ?ds"
    unfolding newly_sent_def using newly_sent_marked [OF r]
    by (simp add: find_due_def)
  show ?thesis using run c by (simp add: processed_message_def)
qed

theorem pass_reports_count_in_message_witness:
  "snd (check_due_reminders no_faults 100 example_db)
     = Inr (JObject [(''message'', JString ''Processed 2 due reminders'')])
   \<and> newly_sent example_db (fst (check_due_reminders no_faults 100 example_db)) = 2"
proof -
  have h1: "distinct (map fst (reminders example_db))"
    by (simp add: example_db_def)
  have h2: "\<forall>x\<in>set (find_due 100 (reminders example_db)). step_ok no_faults 100 x"
    by (simp add: example_due step_ok_def notification_for_def NotificationCreate_of_def
        example_reminder_def length_between_def no_faults_def)
  show ?thesis
    using pass_reports_count_in_message [OF h1 h2]
    by (simp add: example_due str_nat_2)
qed

lemma distinct_fst_find_due:
  "distinct (map fst c) \<Longrightarrow> distinct (map fst (find_due now c))"
  unfolding find_due_def by (simp add: distinct_map_filter)

text \<open>
  Claim C2, as stated, fails: with three due reminders and a store that rejects the
  status update of the second, the pass ends in the store's error, reports no count, and
  leaves the third reminder pending although none of its own writes would fail.
\<close>

theorem failed_write_aborts_batch:
  "snd (check_due_reminders update_of_1_fails 100 three_due_db) = Inl PyMongoError
   \<and> map (\<lambda>(i, d). (i, rd_status d))
        (reminders (fst (check_due_reminders update_of_1_fails 100 three_due_db)))
     = [(0, Some SENT), (1, Some PENDING), (2, Some PENDING)]
   \<and> step_ok update_of_1_fails 100 (2, example_reminder ''c'' 70 PENDING)"
  by (simp add: check_due_reminders_def find_due_def three_due_db_def example_reminder_def
      due_def NotificationCreate_of_def length_between_def insert_notification_def
      update_reminder_doc_def update_of_1_fails_def mark_sent_def step_ok_def
      notification_for_def)

text \<open>
  Claim C2, amended.  When the status update of one due reminder raises, the pass ends
  with that error and reports no count: the due reminders found before it are sent,
  each with its notification; the failing reminder has its notification inserted but its
  document, like those of the due reminders after it, is left as it was.
\<close>

theorem pass_aborts_at_failed_update:
  assumes "distinct (map fst (reminders db))"
    and "find_due now (reminders db) = pre @ (i, d) # post"
    and "\<forall>x\<in>set pre. step_ok fails now x"
    and "notification_for now d = Some nd"
    and "\<not> fails (Insert_notification nd)"
    and "fails (Update_reminder i)"
  shows "snd (check_due_reminders fails now db) = Inl PyMongoError
         \<and> reminders (fst (check_due_reminders fails now db))
           = map (\<lambda>(j, e). (j, if j \<in> fst ` set pre then mark_sent now e else e)) (reminders db)
         \<and> map snd (notifications (fst (check_due_reminders fails now db)))
           = map snd (notifications db)
               @ List.map_filter (\<lambda>(j, e). notification_for now e) pre @ [nd]
         \<and> (\<forall>x\<in>set ((i, d) # post). x \<in> set (reminders (fst (check_due_reminders fails now db))))"
proof -
  let ?db1 = "after_sent now pre db"
  let ?db2 = "?db1\<lparr>notifications := notifications ?db1 @ [(next_oid ?db1, nd)],
                  next_oid := next_oid ?db1 + 1\<rparr>"
  from assms(4) obtain nc
    where nc: "NotificationCreate_of (rd_task_id d) (rd_title d) (rd_message d) REMINDER = Inr nc"
      and nd_eq: "nd = sent_notification now nc"
    by (auto simp: notification_for_def split: sum.splits)
  have "process_due fails now (pre @ (i, d) # post) db 0
        = process_due fails now ((i, d) # post) ?db1 (0 + length pre)"
    using assms(1,3) by (rule process_due_prefix)
  also have "\<dots> = (?db2, Inl PyMongoError)"
    using nc nd_eq assms(5,6)
    by (simp add: insert_notification_def update_reminder_doc_def)
  finally have run: "check_due_reminders fails now db = (?db2, Inl PyMongoError)"
    using assms(2) by (simp add: check_due_reminders_def)
  have len: "length (List.map_filter (\<lambda>(j, e). notification_for now e) pre) = length pre"
    using assms(3) by (rule length_map_filter_ok)
  have r: "reminders ?db2
           = map (\<lambda>(j, e). (j, if j \<in> fst ` set pre then mark_sent now e else e)) (reminders db)"
    by (simp add: after_sent_def)
  have n: "map snd (notifications ?db2)
           = map snd (notifications db)
               @ List.map_filter (\<lambda>(j, e). notification_for now e) pre @ [nd]"
    using len by (simp add: after_sent_def map_snd_zip_upt)
  have rest: "x \<in> set (reminders ?db2)" if x: "x \<in> set ((i, d) # post)" for x
  proof -
    have dd: "distinct (map fst (pre @ (i, d) # post))"
      using distinct_fst_find_due [OF assms(1), of now] assms(2) by simp
    from x dd have notin: "fst x \<notin> fst ` set pre"
      by (auto simp: image_iff)
    have "x \<in> set (find_due now (reminders db))"
      using x assms(2) by auto
    then have mem: "x \<in> set (reminders db)"
      by (simp add: find_due_def)
    have "(\<lambda>(j, e). (j, if j \<in> fst ` set pre then mark_sent now e else e)) x = x"
      using notin by (cases x) simp
    with mem show ?thesis
      unfolding r by (metis (no_types, lifting) image_eqI list.set_map)
  qed
  show ?thesis using run r n rest by simp
qed

lemma three_due: "find_due 100 (reminders three_due_db)
   = [(0, example_reminder ''a'' 50 PENDING)] @ (1, example_reminder ''b'' 60 PENDING)
       # [(2, example_reminder ''c'' 70 PENDING)]"
  by (simp add: find_due_def three_due_db_def example_reminder_def due_def)

theorem pass_aborts_at_failed_update_witness:
  "snd (check_due_reminders update_of_1_fails 100 three_due_db) = Inl PyMongoError
   \<and> map (\<lambda>(i, d). rd_status d)
        (reminders (fst (check_due_reminders update_of_1_fails 100 three_due_db)))
     = [Some SENT, Some PENDING, Some PENDING]
   \<and> length (notifications (fst (check_due_reminders update_of_1_fails 100 three_due_db))) = 2"
proof -
  have h1: "distinct (map fst (reminders three_due_db))"
    by (simp add: three_due_db_def)
  have h3: "\<forall>x\<in>set [(0, example_reminder ''a'' 50 PENDING)]. step_ok update_of_1_fails 100 x"
    by (simp add: step_ok_def notification_for_def NotificationCreate_of_def
        example_reminder_def length_between_def update_of_1_fails_def)
  obtain nd where h4: "notification_for 100 (example_reminder ''b'' 60 PENDING) = Some nd"
    by (simp add: notification_for_def NotificationCreate_of_def
        example_reminder_def length_between_def)
  have h5: "\<not> update_of_1_fails (Insert_notification nd)"
    by (simp add: update_of_1_fails_def)
  have h6: "update_of_1_fails (Update_reminder 1)"
    by (simp add: update_of_1_fails_def)
  note t = pass_aborts_at_failed_update [OF h1 three_due h3 h4 h5 h6]
  let ?db' = "fst (check_due_reminders update_of_1_fails 100 three_due_db)"
  have rs: "reminders three_due_db
            = [(0, example_reminder ''a'' 50 PENDING), (1, example_reminder ''b'' 60 PENDING),
               (2, example_reminder ''c'' 70 PENDING)]"
    and ns: "notifications three_due_db = []"
    by (simp_all add: three_due_db_def)
  have e: "snd (check_due_reminders update_of_1_fails 100 three_due_db) = Inl PyMongoError"
    using t by simp
  have r: "map (\<lambda>(i, d). rd_status d) (reminders ?db') = [Some SENT, Some PENDING, Some PENDING]"
    using t by (simp add: rs example_reminder_def mark_sent_def)
  have "length (notifications ?db') = length (map snd (notifications ?db'))"
    by simp
  also have "\<dots> = 2"
    using t h4 by (simp add: ns notification_for_def NotificationCreate_of_def
        example_reminder_def length_between_def)
  finally show ?thesis using e r by simp
qed

section \<open>Properties of the reminder and notification handlers\<close>

lemma find_one_update_one: "find_one i (update_one i f c) = map_option f (find_one i c)"
  by (induction c) (auto simp: find_one_def)

lemma find_one_append_fresh: "i \<notin> fst ` set c \<Longrightarrow> find_one i (c @ [(i, d)]) = Some d"
  by (induction c) (auto simp: find_one_def)


lemma map_mark_empty:
  "map (\<lambda>(j, e). (j, if j \<in> {} then mark_sent now e else e)) c = c"
  by (induction c) auto

lemma marks_none:
  assumes "rs' = rs"
  shows "\<exists>S. S \<subseteq> A \<and> rs' = map (\<lambda>(j, e). (j, if j \<in> S then mark_sent now e else e)) rs"
proof (intro exI conjI)
  show "{} \<subseteq> A" by simp
  show "rs' = map (\<lambda>(j, e). (j, if j \<in> {} then mark_sent now e else e)) rs"
    using assms by (simp only: map_mark_empty)
qed

lemma marks_step:
  assumes "distinct (map fst rs)"
  shows "map (\<lambda>(j, e). (j, if j \<in> S then mark_sent now e else e)) (update_one i (mark_sent now) rs)
         = map (\<lambda>(j, e). (j, if j \<in> insert i S then mark_sent now e else e)) rs"
  using assms by (simp add: update_one_distinct) auto

lemma process_due_marks_some:
  assumes "distinct (map fst (reminders db))"
  shows "\<exists>S. S \<subseteq> fst ` set ds
           \<and> reminders (fst (process_due fails now ds db n))
             = map (\<lambda>(j, e). (j, if j \<in> S then mark_sent now e else e)) (reminders db)"
  using assms
proof (induction ds arbitrary: db n)
  case Nil
  show ?case by (rule marks_none) simp
next
  case (Cons x ds)
  obtain i d where x: "x = (i, d)" by (cases x)
  show ?case
  proof (cases "NotificationCreate_of (rd_task_id d) (rd_title d) (rd_message d) REMINDER")
    case (Inl e)
    show ?thesis by (rule marks_none) (simp add: x Inl)
  next
    case (Inr nc)
    show ?thesis
    proof (cases "fails (Insert_notification (sent_notification now nc))")
      case True
      show ?thesis by (rule marks_none) (simp add: x Inr True insert_notification_def)
    next
      case ins: False
      show ?thesis
      proof (cases "fails (Update_reminder i)")
        case True
        show ?thesis
          by (rule marks_none)
            (simp add: x Inr ins True insert_notification_def update_reminder_doc_def)
      next
        case upd: False
        let ?db2 = "db\<lparr>notifications := notifications db @ [(next_oid db, sent_notification now nc)],
                       next_oid := next_oid db + 1,
                       reminders := update_one i (mark_sent now) (reminders db)\<rparr>"
        have step: "process_due fails now (x # ds) db n = process_due fails now ds ?db2 (n + 1)"
          by (simp add: x Inr ins upd insert_notification_def update_reminder_doc_def)
        have d2: "distinct (map fst (reminders ?db2))"
          using Cons.prems by simp
        from Cons.IH [OF d2, of "n + 1"] obtain S where S: "S \<subseteq> fst ` set ds"
          and r: "reminders (fst (process_due fails now ds ?db2 (n + 1)))
                  = map (\<lambda>(j, e). (j, if j \<in> S then mark_sent now e else e)) (reminders ?db2)"
          by blast
        have r2: "reminders ?db2 = update_one i (mark_sent now) (reminders db)"
          by simp
        have "reminders (fst (process_due fails now (x # ds) db n))
              = map (\<lambda>(j, e). (j, if j \<in> insert i S then mark_sent now e else e)) (reminders db)"
          unfolding step r r2 using Cons.prems by (rule marks_step)
        moreover have "insert i S \<subseteq> fst ` set (x # ds)"
          using S x by auto
        ultimately show ?thesis by blast
      qed
    qed
  qed
qed

lemma fst_check_due_reminders:
  "fst (check_due_reminders fails now db)
   = fst (process_due fails now (find_due now (reminders db)) db 0)"
proof -
  obtain db' res where p: "process_due fails now (find_due now (reminders db)) db 0 = (db', res)"
    by (cases "process_due fails now (find_due now (reminders db)) db 0")
  show ?thesis
    by (cases res) (simp_all add: check_due_reminders_def p)
qed

lemma list_all2_map_self:
  "(\<And>x. x \<in> set xs \<Longrightarrow> P x (f x)) \<Longrightarrow> list_all2 P xs (map f xs)"
  by (induction xs) auto

lemma pass_only_pending_to_sent:
  assumes "distinct (map fst (reminders db))"
  shows "list_all2 (\<lambda>x y. fst y = fst x
            \<and> (snd y = snd x \<or> due now (snd x) \<and> snd y = mark_sent now (snd x)))
           (reminders db) (reminders (fst (check_due_reminders fails now db)))"
proof -
  have "\<exists>S. S \<subseteq> fst ` set (find_due now (reminders db))
           \<and> reminders (fst (process_due fails now (find_due now (reminders db)) db 0))
             = map (\<lambda>(j, e). (j, if j \<in> S then mark_sent now e else e)) (reminders db)"
    using assms by (rule process_due_marks_some)
  then obtain S where SR: "S \<subseteq> fst ` set (find_due now (reminders db))
           \<and> reminders (fst (process_due fails now (find_due now (reminders db)) db 0))
             = map (\<lambda>(j, e). (j, if j \<in> S then mark_sent now e else e)) (reminders db)" ..
  note S = SR [THEN conjunct1] and r = SR [THEN conjunct2]
  have eq: "reminders (fst (check_due_reminders fails now db))
            = map (\<lambda>(j, e). (j, if j \<in> S then mark_sent now e else e)) (reminders db)"
    by (simp only: fst_check_due_reminders r)
  have d: "due now e" if m: "(j, e) \<in> set (reminders db)" and j: "j \<in> S" for j e
  proof -
    from S j have "j \<in> fst ` set (find_due now (reminders db))" by (rule subsetD)
    then show ?thesis using find_due_ids [OF assms m] by (rule iffD1 [rotated])
  qed
  let ?f = "\<lambda>(j, e). (j, if j \<in> S then mark_sent now e else e)"
  let ?P = "\<lambda>x y. fst y = fst x
            \<and> (snd y = snd x \<or> due now (snd x) \<and> snd y = mark_sent now (snd x))"
  have "list_all2 ?P (reminders db) (map ?f (reminders db))"
  proof (rule list_all2_map_self)
    fix x assume x: "x \<in> set (reminders db)"
    obtain j e where xe: "x = (j, e)" by (cases x)
    show "?P x (?f x)"
    proof (cases "j \<in> S")
      case True
      with d x xe have "due now e" by blast
      with True xe show ?thesis by simp
    next
      case False
      with xe show ?thesis by simp
    qed
  qed
  then show ?thesis by (simp only: eq)
qed

text \<open>
  Claim C7, as stated, fails: a reminder that is already sent goes back to pending when
  \<open>PUT /reminders/{id}\<close> carries \<open>status = pending\<close>.
\<close>

theorem update_returns_sent_reminder_to_pending:
  "map_option rd_status (find_one 0 (reminders sent_db)) = Some (Some SENT)
   \<and> map_option rd_status
        (find_one 0 (reminders (fst (update_reminder example_object_id no_faults 150
            ''000000000000000000000000'' back_to_pending sent_db))))
     = Some (Some PENDING)
   \<and> map_sum id r_status
        (snd (update_reminder example_object_id no_faults 150
            ''000000000000000000000000'' back_to_pending sent_db))
     = Inr PENDING"
  by (simp add: update_reminder_def example_object_id_def sent_db_def find_one_def
      example_reminder_def update_reminder_doc_def no_faults_def reminder_update_data_def
      back_to_pending_def set_field_def Reminder_of_def length_between_def)

text \<open>
  Claim C7, amended.  The reconciliation pass changes a reminder document in one way
  only: a pending, due reminder becomes sent; whatever writes fail, every other document
  stays as it is.  \<open>update_reminder\<close> stores the status the request carries, whatever
  the current status, and keeps the stored status when the request carries none.
\<close>

theorem reminder_status_transitions:
  assumes "distinct (map fst (reminders db))"
    and "object_id reminder_id = Some i"
    and "find_one i (reminders db) = Some e"
    and "\<not> fails (Update_reminder i)"
  shows "list_all2 (\<lambda>x y. fst y = fst x
            \<and> (snd y = snd x
               \<or> rd_status (snd x) = Some PENDING \<and> rd_status (snd y) = Some SENT))
           (reminders db) (reminders (fst (check_due_reminders fails now db)))
         \<and> map_option rd_status
              (find_one i (reminders (fst (update_reminder object_id fails now reminder_id u db))))
           = Some (case ru_status u of None \<Rightarrow> rd_status e | Some s \<Rightarrow> s)"
proof -
  have a: "list_all2 (\<lambda>x y. fst y = fst x
            \<and> (snd y = snd x
               \<or> rd_status (snd x) = Some PENDING \<and> rd_status (snd y) = Some SENT))
           (reminders db) (reminders (fst (check_due_reminders fails now db)))"
    using pass_only_pending_to_sent [OF assms(1), of now fails]
    by (rule list_all2_mono) (auto simp: due_def mark_sent_def)
  have "reminders (fst (update_reminder object_id fails now reminder_id u db))
        = update_one i (reminder_update_data u now) (reminders db)"
    using assms(2,3,4)
    by (simp add: update_reminder_def update_reminder_doc_def find_one_update_one)
  then have b: "map_option rd_status
              (find_one i (reminders (fst (update_reminder object_id fails now reminder_id u db))))
           = Some (case ru_status u of None \<Rightarrow> rd_status e | Some s \<Rightarrow> s)"
    using assms(3)
    by (simp add: find_one_update_one reminder_update_data_def set_field_def)
  show ?thesis using a b by simp
qed

theorem reminder_status_transitions_witness:
  "list_all2 (\<lambda>x y. fst y = fst x
            \<and> (snd y = snd x
               \<or> rd_status (snd x) = Some PENDING \<and> rd_status (snd y) = Some SENT))
           (reminders example_db) (reminders (fst (check_due_reminders no_faults 100 example_db)))
   \<and> map_option rd_status
        (find_one 0 (reminders (fst (update_reminder example_object_id no_faults 100
            ''000000000000000000000000'' back_to_pending example_db))))
     = Some (Some PENDING)"
proof -
  have h1: "distinct (map fst (reminders example_db))"
    by (simp add: example_db_def)
  have h2: "example_object_id ''000000000000000000000000'' = Some 0"
    by (simp add: example_object_id_def)
  have h3: "find_one 0 (reminders example_db) = Some (example_reminder ''a'' 50 PENDING)"
    by (simp add: example_db_def find_one_def)
  have h4: "\<not> no_faults (Update_reminder 0)"
    by (simp add: no_faults_def)
  have s: "(case ru_status back_to_pending of None \<Rightarrow> rd_status (example_reminder ''a'' 50 PENDING)
            | Some s \<Rightarrow> s) = Some PENDING"
    by (simp add: back_to_pending_def)
  show ?thesis
    using reminder_status_transitions
      [where db = example_db and object_id = example_object_id
         and reminder_id = "''000000000000000000000000''" and i = 0
         and e = "example_reminder ''a'' 50 PENDING" and fails = no_faults
         and now = 100 and u = back_to_pending, OF h1 h2 h3 h4]
    unfolding s .
qed

lemma fresh_oid: "\<forall>i\<in>fst ` set c. i < (n::oid) \<Longrightarrow> n \<notin> fst ` set c"
  by auto



section \<open>Properties of the task service\<close>

lemma tasks_notify [simp]: "tasks (notify_reminder_service net task w) = tasks w"
  by (simp add: notify_reminder_service_def Let_def split: option.splits post_outcome.splits)

lemma task_next_oid_notify [simp]:
  "task_next_oid (notify_reminder_service net task w) = task_next_oid w"
  by (simp add: notify_reminder_service_def Let_def split: option.splits post_outcome.splits)

lemma printed_notify:
  "printed (notify_reminder_service net task w)
   = printed w @ (case t_reminder_time task of
                    None \<Rightarrow> []
                  | Some rt \<Rightarrow>
                      if t_reminder_enabled task
                      then (case net (reminder_request_of task rt) of
                              Responded code \<Rightarrow> []
                            | Raised e \<Rightarrow> [''Failed to notify reminder service: '' @ e])
                      else [])"
  by (simp add: notify_reminder_service_def Let_def split: option.splits post_outcome.splits)

lemma posted_notify:
  "posted (notify_reminder_service net task w)
   = posted w @ (case t_reminder_time task of
                   None \<Rightarrow> []
                 | Some rt \<Rightarrow> if t_reminder_enabled task then [reminder_request_of task rt] else [])"
  by (simp add: notify_reminder_service_def Let_def split: option.splits post_outcome.splits)

text \<open>
  Claim C5.  For a valid \<open>TaskCreate\<close> and a store whose ids lie below the ObjectId
  counter, \<open>create_task\<close> stores the new task document, hands the bridge's request to
  the HTTP client when the reminder is enabled with a time, and returns the created
  task, whatever the client does with the request: when the client raises, the only
  trace is the printed line, and the response, the task collection and the counter are
  the same for any two behaviours of the client.
\<close>

theorem create_task_survives_bridge_failure:
  assumes "\<forall>i\<in>fst ` set (tasks w). i < task_next_oid w"
    and "length_between 1 200 (tc_title task)"
    and "opt_max_length 1000 (tc_description task)"
    and "opt_max_length 100 (tc_category task)"
  shows "snd (create_task net t1 t2 task w)
           = Inr \<lparr>t_id = Some (task_next_oid w), t_title = tc_title task,
                  t_description = tc_description task, t_priority = tc_priority task,
                  t_category = tc_category task, t_due_date = tc_due_date task,
                  t_reminder_enabled = tc_reminder_enabled task,
                  t_reminder_time = tc_reminder_time task, t_status = T_PENDING,
                  t_created_at = t1, t_updated_at = t2, t_completed_at = None\<rparr>
         \<and> tasks (fst (create_task net t1 t2 task w))
           = tasks w @
             [(task_next_oid w,
               \<lparr>td_title = Some (tc_title task), td_description = tc_description task,
                td_priority = Some (tc_priority task), td_category = tc_category task,
                td_due_date = tc_due_date task,
                td_reminder_enabled = Some (tc_reminder_enabled task),
                td_reminder_time = tc_reminder_time task, td_status = Some T_PENDING,
                td_created_at = t1, td_updated_at = t2, td_completed_at = None\<rparr>)]
         \<and> task_next_oid (fst (create_task net t1 t2 task w)) = task_next_oid w + 1
         \<and> posted (fst (create_task net t1 t2 task w))
           = posted w @
             (case tc_reminder_time task of
                None \<Rightarrow> []
              | Some rt \<Rightarrow>
                  if tc_reminder_enabled task
                  then [\<lparr>rq_task_id = Some (task_next_oid w),
                         rq_title = ''Reminder: '' @ tc_title task,
                         rq_message = ''Task '' @ [CHR 0x27] @ tc_title task @ [CHR 0x27]
                                        @ '' is due soon'',
                         rq_reminder_time = rt,
                         rq_task_due_date = tc_due_date task\<rparr>]
                  else [])
         \<and> printed (fst (create_task net t1 t2 task w))
           = printed w @
             (case tc_reminder_time task of
                None \<Rightarrow> []
              | Some rt \<Rightarrow>
                  if tc_reminder_enabled task
                  then (case net \<lparr>rq_task_id = Some (task_next_oid w),
                                  rq_title = ''Reminder: '' @ tc_title task,
                                  rq_message = ''Task '' @ [CHR 0x27] @ tc_title task
                                                 @ [CHR 0x27] @ '' is due soon'',
                                  rq_reminder_time = rt,
                                  rq_task_due_date = tc_due_date task\<rparr> of
                          Responded code \<Rightarrow> []
                        | Raised e \<Rightarrow> [''Failed to notify reminder service: '' @ e])
                  else [])
         \<and> snd (create_task net t1 t2 task w) = snd (create_task net' t1 t2 task w)
         \<and> tasks (fst (create_task net t1 t2 task w))
           = tasks (fst (create_task net' t1 t2 task w))
         \<and> task_next_oid (fst (create_task net t1 t2 task w))
           = task_next_oid (fst (create_task net' t1 t2 task w))"
proof -
  have fresh: "task_next_oid w \<notin> fst ` set (tasks w)"
    using assms(1) by (rule fresh_oid)
  show ?thesis
    using assms(2-4)
    by (simp add: create_task_def Let_def Task_of_def find_one_append_fresh [OF fresh]
        posted_notify printed_notify reminder_request_of_def
        split: option.splits post_outcome.splits)
qed

theorem create_task_survives_bridge_failure_witness:
  "map_sum id (\<lambda>t. (t_id t, t_title t, t_status t, t_reminder_enabled t))
     (snd (create_task unreachable_net 1 2 example_task empty_tstore))
     = Inr (Some 0, ''Pay rent'', T_PENDING, True)
   \<and> tasks (fst (create_task unreachable_net 1 2 example_task empty_tstore))
     = [(0, example_task_doc)]
   \<and> length (posted (fst (create_task unreachable_net 1 2 example_task empty_tstore))) = 1
   \<and> printed (fst (create_task unreachable_net 1 2 example_task empty_tstore))
     = [''Failed to notify reminder service: connection refused'']
   \<and> snd (create_task unreachable_net 1 2 example_task empty_tstore)
     = snd (create_task reachable_net 1 2 example_task empty_tstore)
   \<and> tasks (fst (create_task unreachable_net 1 2 example_task empty_tstore))
     = tasks (fst (create_task reachable_net 1 2 example_task empty_tstore))"
proof -
  have h1: "\<forall>i\<in>fst ` set (tasks empty_tstore). i < task_next_oid empty_tstore"
    by (simp add: empty_tstore_def)
  have h2: "length_between 1 200 (tc_title example_task)"
    and h3: "opt_max_length 1000 (tc_description example_task)"
    and h4: "opt_max_length 100 (tc_category example_task)"
    by (simp_all add: example_task_def length_between_def opt_max_length_def)
  note t = create_task_survives_bridge_failure
    [OF h1 h2 h3 h4, of unreachable_net 1 2 reachable_net]
  note t1 = t [THEN conjunct1]
    and t2 = t [THEN conjunct2, THEN conjunct1]
    and t4 = t [THEN conjunct2, THEN conjunct2, THEN conjunct2, THEN conjunct1]
    and t5 = t [THEN conjunct2, THEN conjunct2, THEN conjunct2, THEN conjunct2, THEN conjunct1]
    and t6 = t [THEN conjunct2, THEN conjunct2, THEN conjunct2, THEN conjunct2, THEN conjunct2]
  have a: "map_sum id (\<lambda>t. (t_id t, t_title t, t_status t, t_reminder_enabled t))
     (snd (create_task unreachable_net 1 2 example_task empty_tstore))
     = Inr (Some 0, ''Pay rent'', T_PENDING, True)"
    by (simp only: t1) (simp add: example_task_def empty_tstore_def)
  have b: "tasks (fst (create_task unreachable_net 1 2 example_task empty_tstore))
     = [(0, example_task_doc)]"
    by (simp only: t2) (simp add: example_task_def empty_tstore_def example_task_doc_def)
  have c: "length (posted (fst (create_task unreachable_net 1 2 example_task empty_tstore))) = 1"
    by (simp only: t4) (simp add: example_task_def empty_tstore_def)
  have d: "printed (fst (create_task unreachable_net 1 2 example_task empty_tstore))
     = [''Failed to notify reminder service: connection refused'']"
    by (simp only: t5) (simp add: example_task_def empty_tstore_def unreachable_net_def)
  show ?thesis
    using a b c d t6 by simp
qed

text \<open>
  Claim C6.  \<open>create_task\<close> always reaches the bridge, and \<open>update_task\<close> reaches it
  only when the update sets \<open>reminder_enabled\<close> or \<open>reminder_time\<close>; the bridge sends
  a request only for a task with \<open>reminder_enabled\<close> true and a \<open>reminder_time\<close>, and
  the request carries the task id, the title \<open>Reminder: \<close> followed by the task's
  title, the message built from the title, the reminder time and the due date.
\<close>

theorem bridge_trigger_and_payload:
  assumes "\<forall>i\<in>fst ` set (tasks w). i < task_next_oid w"
    and "length_between 1 200 (tc_title task)"
    and "opt_max_length 1000 (tc_description task)"
    and "opt_max_length 100 (tc_category task)"
  shows "posted (fst (create_task net t1 t2 task w))
           = posted w @
             (case tc_reminder_time task of
                None \<Rightarrow> []
              | Some rt \<Rightarrow>
                  if tc_reminder_enabled task
                  then [\<lparr>rq_task_id = Some (task_next_oid w),
                         rq_title = ''Reminder: '' @ tc_title task,
                         rq_message = ''Task '' @ [CHR 0x27] @ tc_title task @ [CHR 0x27]
                                        @ '' is due soon'',
                         rq_reminder_time = rt,
                         rq_task_due_date = tc_due_date task\<rparr>]
                  else [])
         \<and> posted (fst (update_task object_id net now task_id u w'))
           = posted w' @
             (case snd (update_task object_id net now task_id u w') of
                Inl e \<Rightarrow> []
              | Inr task_obj \<Rightarrow>
                  (case t_reminder_time task_obj of
                     None \<Rightarrow> []
                   | Some rt \<Rightarrow>
                       if (tu_reminder_enabled u \<noteq> None \<or> tu_reminder_time u \<noteq> None)
                          \<and> t_reminder_enabled task_obj
                       then [\<lparr>rq_task_id = t_id task_obj,
                              rq_title = ''Reminder: '' @ t_title task_obj,
                              rq_message = ''Task '' @ [CHR 0x27] @ t_title task_obj
                                             @ [CHR 0x27] @ '' is due soon'',
                              rq_reminder_time = rt,
                              rq_task_due_date = t_due_date task_obj\<rparr>]
                       else []))"
proof -
  have fresh: "task_next_oid w \<notin> fst ` set (tasks w)"
    using assms(1) by (rule fresh_oid)
  have c: "posted (fst (create_task net t1 t2 task w))
           = posted w @
             (case tc_reminder_time task of
                None \<Rightarrow> []
              | Some rt \<Rightarrow>
                  if tc_reminder_enabled task
                  then [\<lparr>rq_task_id = Some (task_next_oid w),
                         rq_title = ''Reminder: '' @ tc_title task,
                         rq_message = ''Task '' @ [CHR 0x27] @ tc_title task @ [CHR 0x27]
                                        @ '' is due soon'',
                         rq_reminder_time = rt,
                         rq_task_due_date = tc_due_date task\<rparr>]
                  else [])"
    using assms(2-4)
    by (simp add: create_task_def Let_def Task_of_def find_one_append_fresh [OF fresh]
        posted_notify reminder_request_of_def split: option.splits)
  have u: "posted (fst (update_task object_id net now task_id u w'))
           = posted w' @
             (case snd (update_task object_id net now task_id u w') of
                Inl e \<Rightarrow> []
              | Inr task_obj \<Rightarrow>
                  (case t_reminder_time task_obj of
                     None \<Rightarrow> []
                   | Some rt \<Rightarrow>
                       if (tu_reminder_enabled u \<noteq> None \<or> tu_reminder_time u \<noteq> None)
                          \<and> t_reminder_enabled task_obj
                       then [\<lparr>rq_task_id = t_id task_obj,
                              rq_title = ''Reminder: '' @ t_title task_obj,
                              rq_message = ''Task '' @ [CHR 0x27] @ t_title task_obj
                                             @ [CHR 0x27] @ '' is due soon'',
                              rq_reminder_time = rt,
                              rq_task_due_date = t_due_date task_obj\<rparr>]
                       else []))"
    by (simp add: update_task_def Let_def posted_notify reminder_request_of_def
        split: option.splits sum.splits)
  show ?thesis
    using c u by (rule conjI)
qed


lemma one_task_store_eq:
  "one_task_store
   = \<lparr>tasks = [(0, \<lparr>td_title = Some ''Pay rent'', td_description = None,
                     td_priority = Some HIGH, td_category = None, td_due_date = Some 1000,
                     td_reminder_enabled = Some True, td_reminder_time = Some 900,
                     td_status = Some T_PENDING, td_created_at = 1, td_updated_at = 2,
                     td_completed_at = None\<rparr>)],
      task_next_oid = 1,
      posted = [\<lparr>rq_task_id = Some 0, rq_title = ''Reminder: Pay rent'',
                 rq_message = ''Task '' @ [CHR 0x27] @ ''Pay rent'' @ [CHR 0x27] @ '' is due soon'',
                 rq_reminder_time = 900, rq_task_due_date = Some 1000\<rparr>],
      printed = []\<rparr>"
  by (simp add: one_task_store_def create_task_def Let_def find_one_def Task_of_def
      example_task_def empty_tstore_def length_between_def opt_max_length_def
      notify_reminder_service_def reminder_request_of_def reachable_net_def)

theorem bridge_trigger_and_payload_witness:
  "posted (fst (create_task unreachable_net 1 2 example_task empty_tstore))
     = [\<lparr>rq_task_id = Some 0, rq_title = ''Reminder: Pay rent'',
         rq_message = ''Task '' @ [CHR 0x27] @ ''Pay rent'' @ [CHR 0x27] @ '' is due soon'',
         rq_reminder_time = 900, rq_task_due_date = Some 1000\<rparr>]
   \<and> posted (fst (update_task example_object_id reachable_net 5 id0 rename_task one_task_store))
     = posted one_task_store
   \<and> posted (fst (update_task example_object_id reachable_net 5 id0 touch_reminder one_task_store))
     = posted one_task_store
         @ [\<lparr>rq_task_id = Some 0, rq_title = ''Reminder: Pay rent'',
             rq_message = ''Task '' @ [CHR 0x27] @ ''Pay rent'' @ [CHR 0x27] @ '' is due soon'',
             rq_reminder_time = 950, rq_task_due_date = Some 1000\<rparr>]"
proof -
  have h1: "\<forall>i\<in>fst ` set (tasks empty_tstore). i < task_next_oid empty_tstore"
    by (simp add: empty_tstore_def)
  have h2: "length_between 1 200 (tc_title example_task)"
    and h3: "opt_max_length 1000 (tc_description example_task)"
    and h4: "opt_max_length 100 (tc_category example_task)"
    by (simp_all add: example_task_def length_between_def opt_max_length_def)
  note t = bridge_trigger_and_payload [OF h1 h2 h3 h4]
  have r: "snd (update_task example_object_id reachable_net 5 id0 rename_task one_task_store)
           = Inr \<lparr>t_id = Some 0, t_title = ''Pay the rent'', t_description = None,
                  t_priority = HIGH, t_category = None, t_due_date = Some 1000,
                  t_reminder_enabled = True, t_reminder_time = Some 900, t_status = T_PENDING,
                  t_created_at = 1, t_updated_at = 5, t_completed_at = None\<rparr>"
    by (simp add: one_task_store_eq update_task_def Let_def find_one_def Task_of_def
        example_object_id_def id0_def rename_task_def no_update_def task_update_data_def
        set_field_def length_between_def opt_max_length_def)
  have m: "snd (update_task example_object_id reachable_net 5 id0 touch_reminder one_task_store)
           = Inr \<lparr>t_id = Some 0, t_title = ''Pay rent'', t_description = None,
                  t_priority = HIGH, t_category = None, t_due_date = Some 1000,
                  t_reminder_enabled = True, t_reminder_time = Some 950, t_status = T_PENDING,
                  t_created_at = 1, t_updated_at = 5, t_completed_at = None\<rparr>"
    by (simp add: one_task_store_eq update_task_def Let_def find_one_def Task_of_def
        example_object_id_def id0_def touch_reminder_def no_update_def task_update_data_def
        set_field_def length_between_def opt_max_length_def)
  have a: "posted (fst (create_task unreachable_net 1 2 example_task empty_tstore))
     = [\<lparr>rq_task_id = Some 0, rq_title = ''Reminder: Pay rent'',
         rq_message = ''Task '' @ [CHR 0x27] @ ''Pay rent'' @ [CHR 0x27] @ '' is due soon'',
         rq_reminder_time = 900, rq_task_due_date = Some 1000\<rparr>]"
    by (simp only: t [THEN conjunct1]) (simp add: example_task_def empty_tstore_def)
  have b: "posted (fst (update_task example_object_id reachable_net 5 id0 rename_task one_task_store))
     = posted one_task_store"
    by (simp only: t [THEN conjunct2] r) (simp add: rename_task_def no_update_def)
  have c: "posted (fst (update_task example_object_id reachable_net 5 id0 touch_reminder one_task_store))
     = posted one_task_store
         @ [\<lparr>rq_task_id = Some 0, rq_title = ''Reminder: Pay rent'',
             rq_message = ''Task '' @ [CHR 0x27] @ ''Pay rent'' @ [CHR 0x27] @ '' is due soon'',
             rq_reminder_time = 950, rq_task_due_date = Some 1000\<rparr>]"
    by (simp only: t [THEN conjunct2] m) (simp add: touch_reminder_def no_update_def)
  show ?thesis using a b c by (intro conjI)
qed

lemma list_all_update_one:
  assumes "list_all (\<lambda>(i, d). P d) c" and "\<And>d. P d \<Longrightarrow> P (f d)"
  shows "list_all (\<lambda>(i, d). P d) (update_one j f c)"
  using assms(1) by (induction c) (auto simp: assms(2))

lemma list_all_delete_one: "list_all Q c \<Longrightarrow> list_all Q (delete_one j c)"
  by (induction c) auto

lemma tasks_create_task:
  "tasks (fst (create_task net t1 t2 task w))
   = tasks w @ [(task_next_oid w,
       \<lparr>td_title = Some (tc_title task), td_description = tc_description task,
        td_priority = Some (tc_priority task), td_category = tc_category task,
        td_due_date = tc_due_date task,
        td_reminder_enabled = Some (tc_reminder_enabled task),
        td_reminder_time = tc_reminder_time task, td_status = Some T_PENDING,
        td_created_at = t1, td_updated_at = t2, td_completed_at = None\<rparr>)]"
  by (simp add: create_task_def Let_def split: option.splits sum.splits)

lemma tasks_update_task:
  "tasks (fst (update_task object_id net now task_id u w)) = tasks w
   \<or> (\<exists>i. tasks (fst (update_task object_id net now task_id u w))
            = update_one i (task_update_data u now) (tasks w))"
  by (auto simp: update_task_def Let_def split: option.splits sum.splits)

lemma tasks_complete_task:
  "tasks (fst (complete_task object_id t1 t2 task_id w)) = tasks w
   \<or> (\<exists>i. tasks (fst (complete_task object_id t1 t2 task_id w))
            = update_one i (complete_data t1 t2) (tasks w))"
  by (auto simp: complete_task_def Let_def split: option.splits sum.splits)

lemma tasks_delete_task:
  "tasks (fst (delete_task object_id task_id w)) = tasks w
   \<or> (\<exists>i. tasks (fst (delete_task object_id task_id w)) = delete_one i (tasks w))"
  by (auto simp: delete_task_def Let_def split: option.splits)

lemma step_keeps_invariant:
  assumes "keeps_status op" and "completion_invariant w"
  shows "completion_invariant (step object_id net op w)"
proof (cases op)
  case (Create task t1 t2)
  then show ?thesis
    using assms(2) by (simp add: completion_invariant_def tasks_create_task)
next
  case (Update task_id u now)
  with assms(1) have s: "tu_status u = None" by simp
  have keep: "(td_status (task_update_data u now d) = Some T_COMPLETED)
              = (td_completed_at (task_update_data u now d) \<noteq> None)"
    if "(td_status d = Some T_COMPLETED) = (td_completed_at d \<noteq> None)" for d
    using that s by (simp add: task_update_data_def set_field_def)
  from tasks_update_task [of object_id net now task_id u w] show ?thesis
  proof
    assume "tasks (fst (update_task object_id net now task_id u w)) = tasks w"
    with assms(2) Update show ?thesis by (simp add: completion_invariant_def)
  next
    assume "\<exists>i. tasks (fst (update_task object_id net now task_id u w))
                = update_one i (task_update_data u now) (tasks w)"
    then obtain i where "tasks (fst (update_task object_id net now task_id u w))
                = update_one i (task_update_data u now) (tasks w)" ..
    moreover have "list_all (\<lambda>(i, d). (td_status d = Some T_COMPLETED) = (td_completed_at d \<noteq> None))
                     (update_one i (task_update_data u now) (tasks w))"
      using assms(2) [unfolded completion_invariant_def] keep by (rule list_all_update_one)
    ultimately show ?thesis using Update by (simp add: completion_invariant_def)
  qed
next
  case (Complete task_id t1 t2)
  have keep: "(td_status (complete_data t1 t2 d) = Some T_COMPLETED)
              = (td_completed_at (complete_data t1 t2 d) \<noteq> None)" for d
    by (simp add: complete_data_def)
  from tasks_complete_task [of object_id t1 t2 task_id w] show ?thesis
  proof
    assume "tasks (fst (complete_task object_id t1 t2 task_id w)) = tasks w"
    with assms(2) Complete show ?thesis by (simp add: completion_invariant_def)
  next
    assume "\<exists>i. tasks (fst (complete_task object_id t1 t2 task_id w))
                = update_one i (complete_data t1 t2) (tasks w)"
    then obtain i where "tasks (fst (complete_task object_id t1 t2 task_id w))
                = update_one i (complete_data t1 t2) (tasks w)" ..
    moreover have "list_all (\<lambda>(i, d). (td_status d = Some T_COMPLETED) = (td_completed_at d \<noteq> None))
                     (update_one i (complete_data t1 t2) (tasks w))"
      using assms(2) [unfolded completion_invariant_def] keep by (rule list_all_update_one)
    ultimately show ?thesis using Complete by (simp add: completion_invariant_def)
  qed
next
  case (Delete task_id)
  from tasks_delete_task [of object_id task_id w] show ?thesis
  proof
    assume "tasks (fst (delete_task object_id task_id w)) = tasks w"
    with assms(2) Delete show ?thesis by (simp add: completion_invariant_def)
  next
    assume "\<exists>i. tasks (fst (delete_task object_id task_id w)) = delete_one i (tasks w)"
    then obtain i where "tasks (fst (delete_task object_id task_id w)) = delete_one i (tasks w)" ..
    moreover have "list_all (\<lambda>(i, d). (td_status d = Some T_COMPLETED) = (td_completed_at d \<noteq> None))
                     (delete_one i (tasks w))"
      using assms(2) [unfolded completion_invariant_def] by (rule list_all_delete_one)
    ultimately show ?thesis using Delete by (simp add: completion_invariant_def)
  qed
qed

lemma run_keeps_invariant:
  "list_all keeps_status ops \<Longrightarrow> completion_invariant w
     \<Longrightarrow> completion_invariant (run object_id net ops w)"
  by (induction ops arbitrary: w) (simp_all add: step_keeps_invariant)


lemma tasks_one_task_store: "tasks one_task_store = [(0, example_task_doc)]"
  by (simp add: one_task_store_eq example_task_doc_def)

text \<open>
  Claim C4, as stated, fails.  Completing a task at time 5 and again at time 9 leaves
  \<open>completed_at = 9\<close>: the second completion replaces the value.  And an update that
  carries \<open>status = completed\<close> stores the status with \<open>completed_at\<close> still null.
\<close>

theorem second_completion_replaces_completed_at:
  "map_option td_completed_at
     (find_one 0 (tasks (run example_object_id reachable_net
        [Create example_task 1 2, Complete id0 5 6] empty_tstore)))
     = Some (Some 5)
   \<and> map_option td_completed_at
     (find_one 0 (tasks (run example_object_id reachable_net
        [Create example_task 1 2, Complete id0 5 6, Complete id0 9 10] empty_tstore)))
     = Some (Some 9)
   \<and> map_option (\<lambda>d. (td_status d, td_completed_at d))
     (find_one 0 (tasks (run example_object_id reachable_net
        [Create example_task 1 2, Update id0 mark_completed 7] empty_tstore)))
     = Some (Some T_COMPLETED, None)"
proof -
  have r: "run example_object_id reachable_net (Create example_task 1 2 # ops) empty_tstore
           = run example_object_id reachable_net ops one_task_store" for ops
    by (simp add: one_task_store_def)
  have c: "tasks (fst (complete_task example_object_id t1 t2 id0 w))
           = update_one 0 (complete_data t1 t2) (tasks w)" for t1 t2 w
    by (simp add: complete_task_def Let_def example_object_id_def id0_def
        split: option.splits)
  have u: "tasks (fst (update_task example_object_id reachable_net 7 id0 mark_completed
             one_task_store))
           = update_one 0 (task_update_data mark_completed 7) (tasks one_task_store)"
    by (simp add: update_task_def Let_def example_object_id_def id0_def tasks_one_task_store
        find_one_def split: sum.splits)
  show ?thesis
    unfolding r
    by (simp only: run.simps step.simps c u)
      (simp add: tasks_one_task_store find_one_def complete_data_def example_task_doc_def
        task_update_data_def mark_completed_def no_update_def set_field_def)
qed

text \<open>
  Claim C4, amended.  Along every sequence of create, update, complete and delete
  requests in which no update carries a status field, a stored task has status
  completed exactly when its \<open>completed_at\<close> is set.  A created task is pending with
  \<open>completed_at\<close> null; \<open>complete_task\<close> stores status completed together with the
  time of that call as \<open>completed_at\<close>, whether or not the task was completed before;
  an update that carries no status field leaves both status and \<open>completed_at\<close> as
  they were.
\<close>

theorem completion_marker_without_status_updates:
  assumes "list_all keeps_status ops"
    and "completion_invariant w"
    and "object_id task_id = Some i"
    and "find_one i (tasks w) = Some d"
    and "tu_status u = None"
  shows "completion_invariant (run object_id net ops w)
         \<and> map (\<lambda>(j, e). (td_status e, td_completed_at e))
              (tasks (fst (create_task net t1 t2 task w)))
           = map (\<lambda>(j, e). (td_status e, td_completed_at e)) (tasks w)
               @ [(Some T_PENDING, None)]
         \<and> map_option (\<lambda>e. (td_status e, td_completed_at e))
              (find_one i (tasks (fst (complete_task object_id t1 t2 task_id w))))
           = Some (Some T_COMPLETED, Some t1)
         \<and> map_option (\<lambda>e. (td_status e, td_completed_at e))
              (find_one i (tasks (fst (update_task object_id net now task_id u w))))
           = Some (td_status d, td_completed_at d)"
proof -
  have a: "completion_invariant (run object_id net ops w)"
    using assms(1,2) by (rule run_keeps_invariant)
  have b: "map (\<lambda>(j, e). (td_status e, td_completed_at e))
              (tasks (fst (create_task net t1 t2 task w)))
           = map (\<lambda>(j, e). (td_status e, td_completed_at e)) (tasks w)
               @ [(Some T_PENDING, None)]"
    by (simp add: tasks_create_task)
  have "tasks (fst (complete_task object_id t1 t2 task_id w))
        = update_one i (complete_data t1 t2) (tasks w)"
    using assms(3) by (simp add: complete_task_def Let_def split: option.splits)
  then have c: "map_option (\<lambda>e. (td_status e, td_completed_at e))
              (find_one i (tasks (fst (complete_task object_id t1 t2 task_id w))))
           = Some (Some T_COMPLETED, Some t1)"
    using assms(4) by (simp add: find_one_update_one complete_data_def)
  have "tasks (fst (update_task object_id net now task_id u w))
        = update_one i (task_update_data u now) (tasks w)"
    using assms(3,4)
    by (simp add: update_task_def Let_def find_one_update_one split: sum.splits)
  then have e: "map_option (\<lambda>e. (td_status e, td_completed_at e))
              (find_one i (tasks (fst (update_task object_id net now task_id u w))))
           = Some (td_status d, td_completed_at d)"
    using assms(4,5) by (simp add: find_one_update_one task_update_data_def set_field_def)
  show ?thesis using a b c e by (intro conjI)
qed

theorem completion_marker_without_status_updates_witness:
  "completion_invariant (run example_object_id reachable_net
      [Update id0 touch_reminder 3, Complete id0 5 6, Complete id0 9 10,
       Create example_task 11 12, Delete id0] one_task_store)
   \<and> map (\<lambda>(j, e). (td_status e, td_completed_at e))
        (tasks (fst (create_task reachable_net 5 6 example_task one_task_store)))
     = map (\<lambda>(j, e). (td_status e, td_completed_at e)) (tasks one_task_store)
         @ [(Some T_PENDING, None)]
   \<and> map_option (\<lambda>e. (td_status e, td_completed_at e))
        (find_one 0 (tasks (fst (complete_task example_object_id 5 6 id0 one_task_store))))
     = Some (Some T_COMPLETED, Some 5)
   \<and> map_option (\<lambda>e. (td_status e, td_completed_at e))
        (find_one 0 (tasks (fst (update_task example_object_id reachable_net 3 id0
            touch_reminder one_task_store))))
     = Some (Some T_PENDING, None)"
proof -
  have h1: "list_all keeps_status
      [Update id0 touch_reminder 3, Complete id0 5 6, Complete id0 9 10,
       Create example_task 11 12, Delete id0]"
    by (simp add: touch_reminder_def no_update_def)
  have h2: "completion_invariant one_task_store"
    by (simp add: completion_invariant_def tasks_one_task_store example_task_doc_def)
  have h3: "example_object_id id0 = Some 0"
    by (simp add: example_object_id_def id0_def)
  have h4: "find_one 0 (tasks one_task_store) = Some example_task_doc"
    by (simp add: tasks_one_task_store find_one_def)
  have h5: "tu_status touch_reminder = None"
    by (simp add: touch_reminder_def no_update_def)
  have s: "(td_status example_task_doc, td_completed_at example_task_doc)
           = (Some T_PENDING, None)"
    by (simp add: example_task_doc_def)
  show ?thesis
    using completion_marker_without_status_updates
      [where ops = "[Update id0 touch_reminder 3, Complete id0 5 6, Complete id0 9 10,
                     Create example_task 11 12, Delete id0]"
         and w = one_task_store and object_id = example_object_id and task_id = id0
         and i = 0 and d = example_task_doc and u = touch_reminder
         and net = reachable_net and ?t1.0 = 5 and ?t2.0 = 6 and now = 3
         and task = example_task, OF h1 h2 h3 h4 h5]
    unfolding s .
qed

section \<open>Properties of the completion rate\<close>

lemma rne_error: "\<bar>of_int (rne x) - x\<bar> \<le> 1 / 2"
proof -
  have "of_int \<lfloor>x\<rfloor> \<le> x" and "x < of_int \<lfloor>x\<rfloor> + 1"
    by linarith+
  then show ?thesis
    by (auto simp: rne_def Let_def)
qed

lemma rne_unique:
  assumes "of_int n - 1 / 2 < x" and "x < of_int n + 1 / 2"
  shows "rne x = n"
proof -
  have lo: "n - 1 \<le> \<lfloor>x\<rfloor>"
    using assms(1) by (simp add: le_floor_iff) 
  have hi: "\<lfloor>x\<rfloor> \<le> n"
    using assms(2) by (simp add: floor_le_iff) 
  from lo hi consider "\<lfloor>x\<rfloor> = n" | "\<lfloor>x\<rfloor> = n - 1"
    by linarith
  then show ?thesis
  proof cases
    case 1
    with assms(2) show ?thesis by (simp add: rne_def Let_def)
  next
    case 2
    with assms(1) show ?thesis by (simp add: rne_def Let_def)
  qed
qed

lemma ilog2_bounds: "0 < n \<Longrightarrow> 2 ^ ilog2 n \<le> n \<and> n < 2 * 2 ^ ilog2 n"
proof (induction n rule: ilog2.induct)
  case (1 n)
  show ?case
  proof (cases "n < 2")
    case True
    with "1.prems" show ?thesis by (simp add: ilog2.simps)
  next
    case False
    then have "0 < n div 2" by simp
    with "1.IH" False have "2 ^ ilog2 (n div 2) \<le> n div 2 \<and> n div 2 < 2 * 2 ^ ilog2 (n div 2)"
      by simp
    with False show ?thesis
      by (subst (1 2) ilog2.simps) (simp, linarith)
  qed
qed

lemma exponent_le:
  assumes "0 < x"
  shows "2 powi exponent x \<le> x"
proof -
  obtain p q where pq: "quotient_of x = (p, q)" by (cases "quotient_of x")
  then have q: "0 < q" by (rule quotient_of_denom_pos)
  from pq have x: "x = of_int p / of_int q" by (rule quotient_of_div)
  with assms q have p: "0 < p"
    by (simp add: zero_less_divide_iff)
  let ?a = "ilog2 p" and ?b = "ilog2 q"
  have "2 ^ ?a \<le> p"
    using ilog2_bounds [of p] p by simp
  then have "(of_int (2 ^ ?a) :: rat) \<le> of_int p"
    by (simp only: of_int_le_iff)
  then have a: "(2::rat) ^ ?a \<le> of_int p"
    by simp
  have "q < 2 * 2 ^ ?b"
    using ilog2_bounds [of q] q by simp
  then have "(of_int q :: rat) < of_int (2 * 2 ^ ?b)"
    by (simp only: of_int_less_iff)
  then have b: "(of_int q :: rat) \<le> 2 ^ Suc ?b"
    by simp
  have "int ?a - int ?b - 1 = int ?a - int (Suc ?b)"
    by simp
  then have "2 powi (int ?a - int ?b - 1) = (2::rat) powi (int ?a - int (Suc ?b))"
    by (rule arg_cong)
  also have "\<dots> = 2 powi int ?a / 2 powi int (Suc ?b)"
    by (rule power_int_diff) simp
  also have "\<dots> = 2 ^ ?a / 2 ^ Suc ?b"
    by (simp only: power_int_of_nat)
  also have "\<dots> \<le> of_int p / of_int q"
    using a b q p by (intro frac_le) simp_all
  finally have low: "2 powi (int ?a - int ?b - 1) \<le> x"
    using x by simp
  show ?thesis
    using low pq by (simp add: exponent_def Let_def)
qed

lemma fl_error:
  assumes "0 < x"
  shows "\<bar>fl x - x\<bar> \<le> x / 2 ^ 53"
proof -
  let ?s = "(2::rat) powi (exponent x - 52)"
  have s: "0 < ?s" by simp
  have fl: "fl x = of_int (rne (x / ?s)) * ?s"
    using assms by (simp add: fl_def Let_def)
  have "\<bar>of_int (rne (x / ?s)) - x / ?s\<bar> \<le> 1 / 2"
    by (rule rne_error)
  then have "\<bar>of_int (rne (x / ?s)) - x / ?s\<bar> * ?s \<le> 1 / 2 * ?s"
    using s by (intro mult_right_mono) simp_all
  moreover have "\<bar>of_int (rne (x / ?s)) - x / ?s\<bar> * ?s = \<bar>fl x - x\<bar>"
  proof -
    have "\<bar>of_int (rne (x / ?s)) - x / ?s\<bar> * ?s = \<bar>(of_int (rne (x / ?s)) - x / ?s) * ?s\<bar>"
      using s by (simp add: abs_mult)
    also have "(of_int (rne (x / ?s)) - x / ?s) * ?s = fl x - x"
      using s by (simp add: fl left_diff_distrib)
    finally show ?thesis .
  qed
  moreover have "1 / 2 * ?s = 2 powi exponent x / 2 ^ 53"
    by (simp add: power_int_diff)
  moreover have "2 powi exponent x / 2 ^ 53 \<le> x / (2 ^ 53 :: rat)"
    using exponent_le [OF assms] by (intro divide_right_mono) simp_all
  ultimately show ?thesis by simp
qed

lemma fl_0 [simp]: "fl 0 = 0"
  by (simp add: fl_def)

lemma rate_error:
  assumes "0 < x" and "x \<le> 1"
  shows "\<bar>fl (fl x * 100) - 100 * x\<bar> \<le> 201 / 2 ^ 53"
proof -
  have p: "(2::rat) ^ 53 = 9007199254740992" by simp
  have e1: "\<bar>fl x - x\<bar> \<le> x / 9007199254740992"
    using fl_error [OF assms(1)] unfolding p .
  from e1 assms(1) have pos: "0 < fl x * 100" by linarith
  have e2: "\<bar>fl (fl x * 100) - fl x * 100\<bar> \<le> fl x * 100 / 9007199254740992"
    using fl_error [OF pos] unfolding p .
  from e1 have a1: "fl x \<le> x + x / 9007199254740992"
    and a2: "x - x / 9007199254740992 \<le> fl x"
    by linarith+
  from e2 have b1: "fl (fl x * 100) \<le> fl x * 100 + fl x * 100 / 9007199254740992"
    and b2: "fl x * 100 - fl x * 100 / 9007199254740992 \<le> fl (fl x * 100)"
    by linarith+
  have "fl (fl x * 100) - 100 * x \<le> 201 / 9007199254740992"
    using a1 b1 assms by linarith
  moreover have "100 * x - fl (fl x * 100) \<le> 201 / 9007199254740992"
    using a1 a2 b2 assms by linarith
  ultimately show ?thesis
    unfolding p by linarith
qed


lemma rate_error_tenths:
  assumes "0 < total_tasks" and "completed_tasks \<le> total_tasks"
  shows "\<bar>fl (fl (of_nat completed_tasks / of_nat total_tasks) * 100) * 10
           - of_nat completed_tasks / of_nat total_tasks * 100 * 10\<bar> \<le> 2010 / 2 ^ 53"
proof (cases "completed_tasks = 0")
  case True
  then show ?thesis by simp
next
  case False
  define x :: rat where "x = of_nat completed_tasks / of_nat total_tasks"
  have p: "(2::rat) ^ 53 = 9007199254740992" by simp
  have "0 < x" using False assms(1) by (simp add: x_def)
  moreover have "x \<le> 1" using assms by (simp add: x_def)
  ultimately have "\<bar>fl (fl x * 100) - 100 * x\<bar> \<le> 201 / 2 ^ 53"
    by (rule rate_error)
  then have "\<bar>fl (fl x * 100) * 10 - x * 100 * 10\<bar> \<le> 2010 / 2 ^ 53"
    unfolding p by linarith
  then show ?thesis by (simp only: x_def)
qed

lemma no_tie_margin:
  fixes completed_tasks total_tasks :: nat and n :: int
  assumes t: "0 < total_tasks"
    and tie: "(2000 * completed_tasks) mod (2 * total_tasks) \<noteq> total_tasks"
    and n: "n = \<lfloor>of_nat completed_tasks / of_nat total_tasks * 100 * 10 + (1 / 2 :: rat)\<rfloor>"
  shows "of_int n - 1 / 2 + 1 / (2 * of_nat total_tasks)
           \<le> (of_nat completed_tasks / of_nat total_tasks * 100 * 10 :: rat)
         \<and> (of_nat completed_tasks / of_nat total_tasks * 100 * 10 :: rat)
           \<le> of_int n + 1 / 2 - 1 / (2 * of_nat total_tasks)"
proof -
  let ?T = "of_nat completed_tasks / of_nat total_tasks * 100 * 10 :: rat"
  let ?t = "of_nat total_tasks :: rat"
  have tpos: "0 < ?t" using t by simp
  have T: "?T * (2 * ?t) = of_int (2000 * int completed_tasks)"
    using tpos by simp
  have "of_int n \<le> ?T + 1 / 2" and "?T + 1 / 2 < of_int n + 1"
    unfolding n by linarith+
  then have "(of_int n - 1 / 2) * (2 * ?t) \<le> ?T * (2 * ?t)"
    and "?T * (2 * ?t) < (of_int n + 1 / 2) * (2 * ?t)"
    using tpos by (simp_all only: mult_le_cancel_right mult_less_cancel_right) linarith+
  then have "(of_int ((2 * n - 1) * int total_tasks) :: rat) \<le> of_int (2000 * int completed_tasks)"
    and "(of_int (2000 * int completed_tasks) :: rat) < of_int ((2 * n + 1) * int total_tasks)"
    unfolding T by (simp_all add: algebra_simps)
  then have lo: "(2 * n - 1) * int total_tasks \<le> 2000 * int completed_tasks"
    and hi: "2000 * int completed_tasks < (2 * n + 1) * int total_tasks"
    by (simp_all only: of_int_le_iff of_int_less_iff)
  have ne: "2000 * int completed_tasks \<noteq> (2 * n - 1) * int total_tasks"
  proof
    assume eq: "2000 * int completed_tasks = (2 * n - 1) * int total_tasks"
    have "(2 * n - 1) * int total_tasks = int total_tasks + (n - 1) * (2 * int total_tasks)"
      by (simp add: algebra_simps)
    then have "(2000 * int completed_tasks) mod (2 * int total_tasks) = int total_tasks mod (2 * int total_tasks)"
      using eq by simp
    also have "\<dots> = int total_tasks"
      using t by simp
    finally have "int ((2000 * completed_tasks) mod (2 * total_tasks)) = int total_tasks"
      by (simp add: zmod_int)
    with tie show False by simp
  qed
  from lo ne have lo': "(2 * n - 1) * int total_tasks + 1 \<le> 2000 * int completed_tasks" by linarith
  from hi have hi': "2000 * int completed_tasks \<le> (2 * n + 1) * int total_tasks - 1" by linarith
  from lo' have "(of_int ((2 * n - 1) * int total_tasks + 1) :: rat) \<le> of_int (2000 * int completed_tasks)"
    by (simp only: of_int_le_iff)
  then have a: "(of_int n - 1 / 2 + 1 / (2 * ?t)) * (2 * ?t) \<le> ?T * (2 * ?t)"
    unfolding T using tpos by (simp add: algebra_simps)
  from hi' have "(of_int (2000 * int completed_tasks) :: rat) \<le> of_int ((2 * n + 1) * int total_tasks - 1)"
    by (simp only: of_int_le_iff)
  then have b: "?T * (2 * ?t) \<le> (of_int n + 1 / 2 - 1 / (2 * ?t)) * (2 * ?t)"
    unfolding T using tpos by (simp add: algebra_simps)
  from a b tpos show ?thesis
    by (simp only: mult_le_cancel_right)
qed

lemma exponent_less:
  assumes "0 < x"
  shows "x < 2 powi (exponent x + 1)"
proof -
  obtain p q where pq: "quotient_of x = (p, q)" by (cases "quotient_of x")
  then have q: "0 < q" by (rule quotient_of_denom_pos)
  from pq have x: "x = of_int p / of_int q" by (rule quotient_of_div)
  with assms q have p: "0 < p"
    by (simp add: zero_less_divide_iff)
  let ?a = "ilog2 p" and ?b = "ilog2 q"
  let ?d = "int ?a - int ?b"
  show ?thesis
  proof (cases "2 powi ?d \<le> x")
    case False
    then show ?thesis
      using pq by (simp add: exponent_def Let_def)
  next
    case True
    have "p < 2 * 2 ^ ?a"
      using ilog2_bounds [of p] p by simp
    then have "(of_int p :: rat) < of_int (2 * 2 ^ ?a)"
      by (simp only: of_int_less_iff)
    then have a: "(of_int p :: rat) < 2 ^ Suc ?a"
      by simp
    have "2 ^ ?b \<le> q"
      using ilog2_bounds [of q] q by simp
    then have "(of_int (2 ^ ?b) :: rat) \<le> of_int q"
      by (simp only: of_int_le_iff)
    then have b: "(2::rat) ^ ?b \<le> of_int q"
      by simp
    have "x < 2 ^ Suc ?a / 2 ^ ?b"
      unfolding x using a b p q by (intro frac_less) simp_all
    also have "\<dots> = 2 powi int (Suc ?a) / 2 powi int ?b"
      by (simp only: power_int_of_nat)
    also have "\<dots> = 2 powi (int (Suc ?a) - int ?b)"
      by (rule power_int_diff [symmetric]) simp
    also have "int (Suc ?a) - int ?b = ?d + 1"
      by simp
    finally show ?thesis
      using True pq by (simp add: exponent_def Let_def)
  qed
qed

lemma tie_displayed: "tenths (completion_rate 23 80) = 287"
  by code_simp

lemma tie_exact: "(of_nat 23 / of_nat 80 * 100 :: rat) = 2875 / 100"
  by simp

lemma tie_half_even: "rne (of_nat 23 / of_nat 80 * 100 * 10) = 288"
  by code_simp

lemma tie_half_up: "\<lfloor>(of_nat 23 / of_nat 80 * 100 * 10 :: rat) + 1 / 2\<rfloor> = 288"
  by simp

text \<open>
  Claim C9, as stated, fails.  With 80 tasks of which 23 are completed the exact rate is
  28.75, which rounds to 28.8 to one decimal (ties to even and ties upwards alike); the
  float computed is just below 28.75 and the dashboard shows 28.7.
\<close>

theorem displayed_rate_at_tie:
  "tenths (completion_rate 23 80) = 287
   \<and> (of_nat 23 / of_nat 80 * 100 :: rat) = 2875 / 100
   \<and> rne (of_nat 23 / of_nat 80 * 100 * 10) = 288
   \<and> \<lfloor>(of_nat 23 / of_nat 80 * 100 * 10 :: rat) + 1 / 2\<rfloor> = 288"
  by (rule conjI [OF tie_displayed conjI [OF tie_exact conjI [OF tie_half_even tie_half_up]]])

text \<open>
  Claim C9, amended.  With no task the displayed rate is 0.0.  With at most
  1000000000 tasks, of which no more are completed than there are, and an exact rate
  that is not halfway between two numbers of one decimal, the displayed rate is the
  exact rate completed / total times 100 rounded to one decimal: it differs from the
  exact rate by less than 0.05.
\<close>

theorem displayed_rate_off_ties:
  assumes "0 < total_tasks"
    and "total_tasks \<le> 1000000000"
    and "completed_tasks \<le> total_tasks"
    and "(2000 * completed_tasks) mod (2 * total_tasks) \<noteq> total_tasks"
  shows "tenths (completion_rate completed_tasks 0) = 0
         \<and> tenths (completion_rate completed_tasks total_tasks)
           = rne (of_nat completed_tasks / of_nat total_tasks * 100 * 10)
         \<and> \<bar>of_int (tenths (completion_rate completed_tasks total_tasks))
              - (of_nat completed_tasks / of_nat total_tasks * 100 * 10 :: rat)\<bar> < 1 / 2"
proof -
  define T :: rat where "T = of_nat completed_tasks / of_nat total_tasks * 100 * 10"
  define A :: rat where
    "A = fl (fl (of_nat completed_tasks / of_nat total_tasks) * 100) * 10"
  define n :: int where "n = \<lfloor>T + 1 / 2\<rfloor>"
  define m :: rat where "m = 1 / (2 * of_nat total_tasks)"
  have p: "(2::rat) ^ 53 = 9007199254740992" by simp
  have err: "\<bar>A - T\<bar> \<le> 2010 / 9007199254740992"
    using rate_error_tenths [OF assms(1,3)] unfolding A_def T_def p .
  have margin: "of_int n - 1 / 2 + m \<le> T \<and> T \<le> of_int n + 1 / 2 - m"
    unfolding m_def T_def
    by (rule no_tie_margin [OF assms(1,4)]) (simp add: n_def T_def)
  have "(of_nat total_tasks :: rat) \<le> 1000000000"
    using assms(2) by (metis of_nat_le_iff of_nat_numeral)
  moreover have "(0::rat) < of_nat total_tasks"
    using assms(1) by simp
  ultimately have "1 / (2 * 1000000000) \<le> m"
    unfolding m_def by (intro divide_left_mono) simp_all
  then have m: "2010 / 9007199254740992 < m"
    by simp
  have A: "of_int n - 1 / 2 < A" "A < of_int n + 1 / 2"
    using err margin m by linarith+
  have T: "of_int n - 1 / 2 < T" "T < of_int n + 1 / 2"
    using margin m by linarith+
  have rA: "rne A = n" using A by (rule rne_unique)
  have rT: "rne T = n" using T by (rule rne_unique)
  have t: "tenths (completion_rate completed_tasks total_tasks) = rne A"
    using assms(1) by (simp add: completion_rate_def A_def)
  have z: "tenths (completion_rate completed_tasks 0) = 0"
    by (simp add: completion_rate_def)
  have "\<bar>of_int n - T\<bar> < 1 / 2"
    using T by linarith
  with z t rA rT show ?thesis
    unfolding T_def by simp
qed

theorem displayed_rate_off_ties_witness:
  "tenths (completion_rate 3 0) = 0
   \<and> tenths (completion_rate 3 10) = 300"
proof -
  have h: "(0::nat) < 10" "(10::nat) \<le> 1000000000" "(3::nat) \<le> 10"
    "(2000 * 3) mod (2 * 10) \<noteq> (10::nat)"
    by simp_all
  note t = displayed_rate_off_ties [OF h]
  have r: "rne (of_nat 3 / of_nat 10 * 100 * 10) = 300"
    by code_simp
  from t [THEN conjunct2, THEN conjunct1] r have "tenths (completion_rate 3 10) = 300"
    by (rule trans)
  with t [THEN conjunct1] show ?thesis
    by (rule conjI)
qed

end
